theory Spec2Isabelle
  imports Complex_Main "HOL-Library.Log_Nat"
begin

section \<open>Python floats\<close>

text \<open>
  The cost fields of \<^verbatim>\<open>src/lib/costs.py\<close> are Python floats: IEEE 754 binary64 numbers.
  A float is modelled by its value: a finite double is \<open>Finite q\<close> with \<open>q\<close> the number it
  stands for (the two zeros are one value, as they are for Python's \<^verbatim>\<open>==\<close>), next to the two
  infinities and NaN. Every arithmetic operation computes the exact result and rounds it to
  the nearest double, ties to the even significand.
\<close>

datatype pyfloat = Finite real | PInf | NInf | NaN

datatype py_error = ValueError | OverflowError | ZeroDivisionError | OSError | MalformedRecordError

definition round_half_even :: "real \<Rightarrow> int" where
  "round_half_even q =
     (let f = \<lfloor>q\<rfloor>; d = q - of_int f
      in if d < 1 / 2 then f
         else if 1 / 2 < d then f + 1
         else if even f then f else f + 1)"

text \<open>\<open>ilog2 q\<close> is the binary exponent of a positive \<open>q\<close>: \<open>2 powi ilog2 q \<le> q < 2 powi (ilog2 q + 1)\<close>.\<close>

definition ilog2 :: "real \<Rightarrow> int" where
  "ilog2 q = (if 1 \<le> q then bitlen \<lfloor>q\<rfloor> - 1 else - bitlen (\<lceil>1 / q\<rceil> - 1))"

text \<open>
  The spacing of the doubles around \<open>q\<close>: 53 significant bits, and the fixed spacing
  \<open>2 powi (- 1074)\<close> of the subnormal numbers below \<open>2 powi (- 1022)\<close>.
\<close>

definition quantum :: "real \<Rightarrow> real" where
  "quantum q = 2 powi (max (ilog2 \<bar>q\<bar>) (- 1022) - 52)"

definition rnd :: "real \<Rightarrow> real" where
  "rnd q = (if q = 0 then 0 else of_int (round_half_even (q / quantum q)) * quantum q)"

text \<open>A rounded result of magnitude \<open>2 ^ 1024\<close> or more is beyond the largest double.\<close>

definition overflows :: "real \<Rightarrow> bool" where
  "overflows q = (2 ^ 1024 \<le> \<bar>rnd q\<bar>)"

text \<open>Float arithmetic never raises on overflow: the result is an infinity.\<close>

definition to_double :: "real \<Rightarrow> pyfloat" where
  "to_double q = (if overflows q then (if 0 < q then PInf else NInf) else Finite (rnd q))"

text \<open>A float literal of the source, such as \<^verbatim>\<open>0.15\<close>, is the double nearest to the decimal.\<close>

definition float_literal :: "real \<Rightarrow> pyfloat" where
  "float_literal q = to_double q"

fun float_neg :: "pyfloat \<Rightarrow> pyfloat" where
  "float_neg (Finite a) = Finite (- a)"
| "float_neg PInf = NInf"
| "float_neg NInf = PInf"
| "float_neg NaN = NaN"

fun float_add :: "pyfloat \<Rightarrow> pyfloat \<Rightarrow> pyfloat" where
  "float_add (Finite a) (Finite b) = to_double (a + b)"
| "float_add NaN y = NaN"
| "float_add x NaN = NaN"
| "float_add PInf NInf = NaN"
| "float_add NInf PInf = NaN"
| "float_add PInf y = PInf"
| "float_add NInf y = NInf"
| "float_add x PInf = PInf"
| "float_add x NInf = NInf"

definition float_sub :: "pyfloat \<Rightarrow> pyfloat \<Rightarrow> pyfloat" where
  "float_sub x y = float_add x (float_neg y)"

text \<open>The sign of a float that is not NaN: \<open>1\<close>, \<open>0\<close> or \<open>- 1\<close>.\<close>

fun float_sign :: "pyfloat \<Rightarrow> int" where
  "float_sign (Finite a) = (if 0 < a then 1 else if a < 0 then - 1 else 0)"
| "float_sign PInf = 1"
| "float_sign NInf = - 1"
| "float_sign NaN = 0"

definition signed_inf :: "int \<Rightarrow> pyfloat" where
  "signed_inf s = (if 0 < s then PInf else if s < 0 then NInf else NaN)"

fun float_mul :: "pyfloat \<Rightarrow> pyfloat \<Rightarrow> pyfloat" where
  "float_mul (Finite a) (Finite b) = to_double (a * b)"
| "float_mul NaN y = NaN"
| "float_mul x NaN = NaN"
| "float_mul x y = signed_inf (float_sign x * float_sign y)"

text \<open>
  \<^verbatim>\<open>x / y\<close> on two floats raises \<^verbatim>\<open>ZeroDivisionError\<close> when \<open>y\<close> is zero; otherwise it is the
  IEEE quotient.
\<close>

fun float_quotient :: "pyfloat \<Rightarrow> pyfloat \<Rightarrow> pyfloat" where
  "float_quotient (Finite a) (Finite b) = to_double (a / b)"
| "float_quotient NaN y = NaN"
| "float_quotient x NaN = NaN"
| "float_quotient (Finite a) y = Finite 0"
| "float_quotient x (Finite b) = signed_inf (float_sign x * float_sign (Finite b))"
| "float_quotient x y = NaN"

definition float_truediv :: "pyfloat \<Rightarrow> pyfloat \<Rightarrow> py_error + pyfloat" where
  "float_truediv x y = (if y = Finite 0 then Inl ZeroDivisionError else Inr (float_quotient x y))"

text \<open>
  An int that meets a float in an arithmetic operation is converted to the nearest double;
  the conversion raises \<^verbatim>\<open>OverflowError\<close> when the int is too large.
\<close>

definition float_of_int :: "int \<Rightarrow> py_error + pyfloat" where
  "float_of_int n = (if overflows (of_int n) then Inl OverflowError else Inr (Finite (rnd (of_int n))))"

text \<open>
  \<^verbatim>\<open>a / b\<close> on two ints is the correctly rounded quotient; it raises
  \<^verbatim>\<open>ZeroDivisionError\<close> for \<open>b = 0\<close> and \<^verbatim>\<open>OverflowError\<close> when the quotient is too large
  for a float.
\<close>

definition int_truediv :: "int \<Rightarrow> int \<Rightarrow> py_error + pyfloat" where
  "int_truediv a b =
     (if b = 0 then Inl ZeroDivisionError
      else if overflows (of_int a / of_int b) then Inl OverflowError
      else Inr (Finite (rnd (of_int a / of_int b))))"

text \<open>\<^verbatim>\<open>x / n\<close> with a float \<open>x\<close> and an int \<open>n\<close>: \<open>n\<close> is converted, then the floats are divided.\<close>

definition float_truediv_int :: "pyfloat \<Rightarrow> int \<Rightarrow> py_error + pyfloat" where
  "float_truediv_int x n =
     (case float_of_int n of Inl e \<Rightarrow> Inl e | Inr d \<Rightarrow> float_truediv x d)"

text \<open>
  The builtin \<^verbatim>\<open>sum\<close> over floats belongs to the interpreter, and its algorithm depends on
  the interpreter. Up to CPython 3.11 it starts from the int \<open>0\<close> and adds the items from
  left to right, rounding after every addition.
\<close>

definition py_sum_plain :: "pyfloat list \<Rightarrow> pyfloat" where
  "py_sum_plain xs = foldl float_add (Finite 0) xs"

text \<open>
  From CPython 3.12 on, the builtin adds the first item to the int \<open>0\<close> and then sums with
  Neumaier's compensation: next to the running total \<open>f\<close> it accumulates in \<open>c\<close> the rounding
  error of every addition, and adds \<open>c\<close> to the total at the end when it is finite and not
  zero.
\<close>

fun float_abs :: "pyfloat \<Rightarrow> pyfloat" where
  "float_abs (Finite a) = Finite \<bar>a\<bar>"
| "float_abs PInf = PInf"
| "float_abs NInf = PInf"
| "float_abs NaN = NaN"

text \<open>\<^verbatim>\<open>x >= y\<close> on floats; every comparison with NaN is false.\<close>

fun float_ge :: "pyfloat \<Rightarrow> pyfloat \<Rightarrow> bool" where
  "float_ge NaN y = False"
| "float_ge x NaN = False"
| "float_ge PInf y = True"
| "float_ge x NInf = True"
| "float_ge (Finite a) (Finite b) = (b \<le> a)"
| "float_ge x y = False"

text \<open>
  \<^verbatim>\<open>round(x, ndigits)\<close> for a float and \<open>ndigits \<ge> 0\<close>: the exact value of \<open>x\<close> is rounded to
  \<open>ndigits\<close> decimals, ties to even, and the decimal is converted back to the nearest double.
  Infinities and NaN are returned as they are.
\<close>

fun py_round :: "pyfloat \<Rightarrow> nat \<Rightarrow> pyfloat" where
  "py_round (Finite q) n = to_double (of_int (round_half_even (q * 10 ^ n)) / 10 ^ n)"
| "py_round x n = x"

text \<open>\<^verbatim>\<open>abs(a - b) <= tol\<close>, the comparison of two floats within a tolerance.\<close>

definition within_tolerance :: "pyfloat \<Rightarrow> pyfloat \<Rightarrow> real \<Rightarrow> bool" where
  "within_tolerance a b tol =
     (case float_sub a b of Finite d \<Rightarrow> \<bar>d\<bar> \<le> tol | _ \<Rightarrow> False)"

fun is_finite :: "pyfloat \<Rightarrow> bool" where
  "is_finite (Finite a) = True"
| "is_finite x = False"

fun neumaier :: "pyfloat \<Rightarrow> pyfloat \<Rightarrow> pyfloat list \<Rightarrow> pyfloat" where
  "neumaier f c [] = (if c \<noteq> Finite 0 \<and> is_finite c then float_add f c else f)"
| "neumaier f c (x # xs) =
     (let t = float_add f x
      in neumaier t
           (float_add c
              (if float_ge (float_abs f) (float_abs x)
               then float_add (float_sub f t) x
               else float_add (float_sub x t) f))
           xs)"

definition py_sum_compensated :: "pyfloat list \<Rightarrow> pyfloat" where
  "py_sum_compensated xs =
     (case xs of
        [] \<Rightarrow> Finite 0
      | x # rest \<Rightarrow> neumaier (float_add (Finite 0) x) (Finite 0) rest)"

section \<open>The interpreter\<close>

text \<open>
  What the code takes from the interpreter it runs on and what differs between
  interpreters: the builtin \<^verbatim>\<open>sum\<close> over floats, and the limit on the number of decimal digits
  of an int that is converted to or from a string (\<^verbatim>\<open>sys.get_int_max_str_digits()\<close>; \<open>0\<close>
  stands for no limit). The repository does not say which interpreter it needs, so the
  operations take the interpreter as their first argument.
\<close>

record runtime =
  builtin_sum :: "pyfloat list \<Rightarrow> pyfloat"
  max_str_digits :: nat

text \<open>CPython 3.11 and CPython 3.12, with the default limit of 4300 digits.\<close>

definition cpython_311 :: runtime where
  "cpython_311 = \<lparr>builtin_sum = py_sum_plain, max_str_digits = 4300\<rparr>"

definition cpython_312 :: runtime where
  "cpython_312 = \<lparr>builtin_sum = py_sum_compensated, max_str_digits = 4300\<rparr>"

section \<open>The data model of \<^verbatim>\<open>costs.py\<close>\<close>

text \<open>
  \<^verbatim>\<open>PRICING\<close>: prices in USD per million tokens. The dict of a model, with its keys
  \<^verbatim>\<open>"input"\<close> and \<^verbatim>\<open>"output"\<close>, is a record.
\<close>

record price =
  price_input :: pyfloat
  price_output :: pyfloat

definition PRICING :: "(string \<times> price) list" where
  "PRICING =
    [(''claude-3-5-sonnet-20241022'',
        \<lparr>price_input = float_literal 3, price_output = float_literal 15\<rparr>),
     (''claude-3-opus-20240229'',
        \<lparr>price_input = float_literal 15, price_output = float_literal 75\<rparr>),
     (''claude-3-5-haiku-20241022'',
        \<lparr>price_input = float_literal (8 / 10), price_output = float_literal 4\<rparr>),
     (''gpt-4o'',
        \<lparr>price_input = float_literal (25 / 10), price_output = float_literal 10\<rparr>),
     (''gpt-4o-mini'',
        \<lparr>price_input = float_literal (15 / 100), price_output = float_literal (60 / 100)\<rparr>),
     (''gpt-4-turbo'',
        \<lparr>price_input = float_literal 10, price_output = float_literal 30\<rparr>),
     (''gemini-1.5-pro'',
        \<lparr>price_input = float_literal (125 / 100), price_output = float_literal 5\<rparr>),
     (''gemini-1.5-flash'',
        \<lparr>price_input = float_literal (75 / 1000), price_output = float_literal (30 / 100)\<rparr>)]"

text \<open>
  \<^verbatim>\<open>PRICING.get(model, {"input": 0, "output": 0})\<close>. The default prices are the int \<open>0\<close>,
  which the multiplication by a float converts to the float zero.
\<close>

definition pricing_get :: "string \<Rightarrow> price" where
  "pricing_get mdl =
     (case map_of PRICING mdl of
        Some p \<Rightarrow> p
      | None \<Rightarrow> \<lparr>price_input = Finite 0, price_output = Finite 0\<rparr>)"

record CostEntry =
  model :: string
  input_tokens :: int
  output_tokens :: int
  total_tokens :: int
  input_cost :: pyfloat
  output_cost :: pyfloat
  total_cost :: pyfloat
  latency_ms :: int
  timestamp :: string

text \<open>
  The dataclass \<^verbatim>\<open>RunCosts\<close>. Its fields \<^verbatim>\<open>total_tokens\<close>, \<^verbatim>\<open>total_cost\<close> and \<^verbatim>\<open>model\<close>
  share their names with fields of \<^verbatim>\<open>CostEntry\<close> and carry the prefix \<open>run_\<close> here. The type
  of the field \<^verbatim>\<open>entries\<close> is a parameter: a \<open>CostEntry list RunCosts\<close> holds the entries by
  value, an \<open>addr RunCosts\<close> holds a reference to the list object (see below).
\<close>

record 'l RunCosts =
  run_id :: string
  entries :: 'l
  total_input_tokens :: int
  total_output_tokens :: int
  run_total_tokens :: int
  run_total_cost :: pyfloat
  total_latency_ms :: int
  avg_latency_ms :: pyfloat
  cost_per_question :: pyfloat
  run_model :: string
  started_at :: string
  completed_at :: string

section \<open>The operations\<close>

text \<open>
  \<^verbatim>\<open>calculate_cost\<close> (the spec's \<^verbatim>\<open>price_call\<close>). The first argument \<open>now\<close> is the reading
  of the clock, \<^verbatim>\<open>datetime.utcnow().isoformat()\<close>.
\<close>

definition calculate_cost :: "string \<Rightarrow> string \<Rightarrow> int \<Rightarrow> int \<Rightarrow> int \<Rightarrow> py_error + CostEntry" where
  "calculate_cost now mdl inp outp lat =
     (let pricing = pricing_get mdl in
      case int_truediv inp 1000000 of
        Inl err \<Rightarrow> Inl err
      | Inr a \<Rightarrow>
         (let in_cost = float_mul a (price_input pricing) in
          case int_truediv outp 1000000 of
            Inl err \<Rightarrow> Inl err
          | Inr b \<Rightarrow>
             (let out_cost = float_mul b (price_output pricing) in
              Inr \<lparr>model = mdl,
                   input_tokens = inp,
                   output_tokens = outp,
                   total_tokens = inp + outp,
                   input_cost = in_cost,
                   output_cost = out_cost,
                   total_cost = float_add in_cost out_cost,
                   latency_ms = lat,
                   timestamp = now\<rparr>)))"

text \<open>
  \<^verbatim>\<open>aggregate_costs\<close>. The \<^verbatim>\<open>ValueError\<close> of the guard is the spec's EmptyInputError. After
  the guard the list is not empty, so \<^verbatim>\<open>entries[0]\<close> and \<^verbatim>\<open>entries[-1]\<close> are its head and
  its last element.
\<close>

definition aggregate_costs ::
  "runtime \<Rightarrow> CostEntry list \<Rightarrow> string \<Rightarrow> py_error + CostEntry list RunCosts" where
  "aggregate_costs rt es rid =
     (if es = [] then Inl ValueError
      else
       (let total_input = sum_list (map input_tokens es);
            total_output = sum_list (map output_tokens es);
            total = builtin_sum rt (map total_cost es);
            total_latency = sum_list (map latency_ms es)
        in case int_truediv total_latency (int (length es)) of
             Inl err \<Rightarrow> Inl err
           | Inr avg \<Rightarrow>
              (case float_truediv_int total (int (length es)) of
                 Inl err \<Rightarrow> Inl err
               | Inr cpq \<Rightarrow>
                  Inr \<lparr>run_id = rid,
                       entries = es,
                       total_input_tokens = total_input,
                       total_output_tokens = total_output,
                       run_total_tokens = total_input + total_output,
                       run_total_cost = total,
                       total_latency_ms = total_latency,
                       avg_latency_ms = avg,
                       cost_per_question = cpq,
                       run_model = model (hd es),
                       started_at = timestamp (hd es),
                       completed_at = timestamp (last es)\<rparr>)))"

section \<open>Objects and references\<close>

text \<open>
  In Python the argument of \<^verbatim>\<open>aggregate_costs\<close> is a reference to a list object, which holds
  references to \<^verbatim>\<open>CostEntry\<close> objects, and \<^verbatim>\<open>RunCosts(entries=entries, ...)\<close> stores that same
  reference. The heap maps the address of a list object to the addresses it holds and the
  address of an entry object to its fields.
\<close>

type_synonym addr = nat

record heap =
  list_at :: "addr \<Rightarrow> addr list"
  entry_at :: "addr \<Rightarrow> CostEntry"

text \<open>The entries that the list object at an address holds, in order.\<close>

definition entries_of :: "heap \<Rightarrow> addr \<Rightarrow> CostEntry list" where
  "entries_of h a = map (entry_at h) (list_at h a)"

text \<open>
  \<^verbatim>\<open>aggregate_costs\<close> once more, on the heap: the argument is the address of the list, and the
  heap is passed through and returned next to the result. Every access of the source to the
  list or to an entry is a read (the truth test, four iterations, \<^verbatim>\<open>len\<close>, \<^verbatim>\<open>entries[0]\<close>,
  \<^verbatim>\<open>entries[-1]\<close> and the attribute reads); the function has no statement that writes.
\<close>

definition aggregate_costs_at ::
  "runtime \<Rightarrow> addr \<Rightarrow> string \<Rightarrow> heap \<Rightarrow> (py_error + addr RunCosts) \<times> heap" where
  "aggregate_costs_at rt a rid h =
     (if list_at h a = [] then (Inl ValueError, h)
      else
       (let total_input = sum_list (map (\<lambda>p. input_tokens (entry_at h p)) (list_at h a));
            total_output = sum_list (map (\<lambda>p. output_tokens (entry_at h p)) (list_at h a));
            total = builtin_sum rt (map (\<lambda>p. total_cost (entry_at h p)) (list_at h a));
            total_latency = sum_list (map (\<lambda>p. latency_ms (entry_at h p)) (list_at h a))
        in case int_truediv total_latency (int (length (list_at h a))) of
             Inl err \<Rightarrow> (Inl err, h)
           | Inr avg \<Rightarrow>
              (case float_truediv_int total (int (length (list_at h a))) of
                 Inl err \<Rightarrow> (Inl err, h)
               | Inr cpq \<Rightarrow>
                  (Inr \<lparr>run_id = rid,
                        entries = a,
                        total_input_tokens = total_input,
                        total_output_tokens = total_output,
                        run_total_tokens = total_input + total_output,
                        run_total_cost = total,
                        total_latency_ms = total_latency,
                        avg_latency_ms = avg,
                        cost_per_question = cpq,
                        run_model = model (entry_at h (hd (list_at h a))),
                        started_at = timestamp (entry_at h (hd (list_at h a))),
                        completed_at = timestamp (entry_at h (last (list_at h a)))\<rparr>,
                   h))))"

text \<open>A \<^verbatim>\<open>RunCosts\<close> that holds a reference, read with the entries the reference leads to.\<close>

definition by_value :: "heap \<Rightarrow> addr RunCosts \<Rightarrow> CostEntry list RunCosts" where
  "by_value h r =
     \<lparr>run_id = run_id r,
      entries = entries_of h (entries r),
      total_input_tokens = total_input_tokens r,
      total_output_tokens = total_output_tokens r,
      run_total_tokens = run_total_tokens r,
      run_total_cost = run_total_cost r,
      total_latency_ms = total_latency_ms r,
      avg_latency_ms = avg_latency_ms r,
      cost_per_question = cost_per_question r,
      run_model = run_model r,
      started_at = started_at r,
      completed_at = completed_at r\<rparr>"

section \<open>The durable JSON form\<close>

text \<open>
  A JSON value as the \<^verbatim>\<open>json\<close> module handles it. A Python dict keeps the order in which
  its keys were inserted, so an object is a list of pairs.
\<close>

datatype json =
    JString string
  | JInt int
  | JFloat pyfloat
  | JObject "(string \<times> json) list"
  | JArray "json list"

text \<open>\<^verbatim>\<open>dataclasses.asdict\<close> on a \<^verbatim>\<open>CostEntry\<close>: every field, in the order of declaration.\<close>

definition asdict :: "CostEntry \<Rightarrow> json" where
  "asdict e =
     JObject
      [(''model'', JString (model e)),
       (''input_tokens'', JInt (input_tokens e)),
       (''output_tokens'', JInt (output_tokens e)),
       (''total_tokens'', JInt (total_tokens e)),
       (''input_cost'', JFloat (input_cost e)),
       (''output_cost'', JFloat (output_cost e)),
       (''total_cost'', JFloat (total_cost e)),
       (''latency_ms'', JInt (latency_ms e)),
       (''timestamp'', JString (timestamp e))]"

text \<open>The dict \<^verbatim>\<open>data\<close> that \<^verbatim>\<open>save_costs\<close> builds.\<close>

definition save_costs_data :: "CostEntry list RunCosts \<Rightarrow> json" where
  "save_costs_data costs =
     JObject
      [(''run_id'', JString (run_id costs)),
       (''model'', JString (run_model costs)),
       (''totals'',
          JObject
           [(''input_tokens'', JInt (total_input_tokens costs)),
            (''output_tokens'', JInt (total_output_tokens costs)),
            (''total_tokens'', JInt (run_total_tokens costs)),
            (''total_cost_usd'', JFloat (py_round (run_total_cost costs) 4)),
            (''total_latency_ms'', JInt (total_latency_ms costs))]),
       (''averages'',
          JObject
           [(''latency_ms'', JFloat (py_round (avg_latency_ms costs) 2)),
            (''cost_per_question_usd'', JFloat (py_round (cost_per_question costs) 6))]),
       (''timing'',
          JObject
           [(''started_at'', JString (started_at costs)),
            (''completed_at'', JString (completed_at costs))]),
       (''entries'', JArray (map asdict (entries costs)))]"

text \<open>
  \<^verbatim>\<open>json.dump\<close> writes the document piece by piece and converts every int with \<^verbatim>\<open>str\<close>,
  which raises \<^verbatim>\<open>ValueError\<close> for an int with more decimal digits than the interpreter's
  limit. A document can be written in full when none of its ints is that long.
\<close>

fun encodable :: "nat \<Rightarrow> json \<Rightarrow> bool" where
  "encodable limit (JInt n) = (limit = 0 \<or> \<bar>n\<bar> < 10 ^ limit)"
| "encodable limit (JObject kv) = list_all (encodable limit) (map snd kv)"
| "encodable limit (JArray js) = list_all (encodable limit) js"
| "encodable limit (JString s) = True"
| "encodable limit (JFloat x) = True"

text \<open>
  The file system: what each file holds, and the paths that can be opened for writing. A
  file that \<^verbatim>\<open>json.dump\<close> wrote in full is modelled by the JSON value that \<^verbatim>\<open>json.load\<close> reads
  from its text (the text itself is not modelled); a file that was opened for writing and
  left with the beginning of a document only is \<open>Truncated\<close>.
\<close>

datatype file_content = Document json | Truncated

record filesystem =
  files :: "string \<rightharpoonup> file_content"
  writable :: "string \<Rightarrow> bool"

text \<open>
  \<^verbatim>\<open>save_costs\<close>, with the file system passed through. \<^verbatim>\<open>open(path, "w")\<close> raises \<^verbatim>\<open>OSError\<close>
  on a path that cannot be written and otherwise empties the file; \<^verbatim>\<open>json.dump\<close> then
  writes the document, or raises \<^verbatim>\<open>ValueError\<close> at the first int that is too long and leaves
  what it wrote before.
\<close>

definition save_costs ::
  "runtime \<Rightarrow> CostEntry list RunCosts \<Rightarrow> string \<Rightarrow> filesystem \<Rightarrow> (py_error + unit) \<times> filesystem" where
  "save_costs rt costs path fs =
     (if \<not> writable fs path then (Inl OSError, fs)
      else if encodable (max_str_digits rt) (save_costs_data costs)
      then (Inr (), fs\<lparr>files := (files fs)(path \<mapsto> Document (save_costs_data costs))\<rparr>)
      else (Inl ValueError, fs\<lparr>files := (files fs)(path \<mapsto> Truncated)\<rparr>))"

text \<open>An empty disk on which every path can be written.\<close>

definition blank_disk :: filesystem where
  "blank_disk = \<lparr>files = Map.empty, writable = (\<lambda>path. True)\<rparr>"

subsection \<open>Reading the durable form back\<close>

definition and_then :: "py_error + 'a \<Rightarrow> ('a \<Rightarrow> py_error + 'b) \<Rightarrow> py_error + 'b" where
  "and_then m f = (case m of Inl err \<Rightarrow> Inl err | Inr x \<Rightarrow> f x)"

definition field :: "(string \<times> json) list \<Rightarrow> string \<Rightarrow> py_error + json" where
  "field kv k = (case map_of kv k of None \<Rightarrow> Inl MalformedRecordError | Some v \<Rightarrow> Inr v)"

fun as_string :: "json \<Rightarrow> py_error + string" where
  "as_string (JString s) = Inr s"
| "as_string j = Inl MalformedRecordError"

fun as_int :: "json \<Rightarrow> py_error + int" where
  "as_int (JInt n) = Inr n"
| "as_int j = Inl MalformedRecordError"

fun as_float :: "json \<Rightarrow> py_error + pyfloat" where
  "as_float (JFloat x) = Inr x"
| "as_float j = Inl MalformedRecordError"

fun as_object :: "json \<Rightarrow> py_error + (string \<times> json) list" where
  "as_object (JObject kv) = Inr kv"
| "as_object j = Inl MalformedRecordError"

fun as_array :: "json \<Rightarrow> py_error + json list" where
  "as_array (JArray js) = Inr js"
| "as_array j = Inl MalformedRecordError"

text \<open>
  Modelled from the spec: the record of one entry of the durable form, the inverse of
  \<^verbatim>\<open>asdict\<close>. \<^verbatim>\<open>costs.py\<close> has no function that reads a saved run back; the spec's Run
  Persistence "serializes/deserializes" a run and fails with MalformedRecordError on a
  file that misses a required field. The model follows \<^verbatim>\<open>load_response\<close> and
  \<^verbatim>\<open>load_eval\<close> of the sibling modules, which build the dataclass from the loaded dict.
\<close>

definition entry_of_json :: "json \<Rightarrow> py_error + CostEntry" where
  "entry_of_json j =
     and_then (as_object j) (\<lambda>kv.
     and_then (and_then (field kv ''model'') as_string) (\<lambda>m.
     and_then (and_then (field kv ''input_tokens'') as_int) (\<lambda>it.
     and_then (and_then (field kv ''output_tokens'') as_int) (\<lambda>ot.
     and_then (and_then (field kv ''total_tokens'') as_int) (\<lambda>tt.
     and_then (and_then (field kv ''input_cost'') as_float) (\<lambda>ic.
     and_then (and_then (field kv ''output_cost'') as_float) (\<lambda>oc.
     and_then (and_then (field kv ''total_cost'') as_float) (\<lambda>tc.
     and_then (and_then (field kv ''latency_ms'') as_int) (\<lambda>lat.
     and_then (and_then (field kv ''timestamp'') as_string) (\<lambda>ts.
       Inr \<lparr>model = m, input_tokens = it, output_tokens = ot, total_tokens = tt,
            input_cost = ic, output_cost = oc, total_cost = tc,
            latency_ms = lat, timestamp = ts\<rparr>))))))))))"

fun entries_of_json :: "json list \<Rightarrow> py_error + CostEntry list" where
  "entries_of_json [] = Inr []"
| "entries_of_json (j # js) =
     and_then (entry_of_json j) (\<lambda>e.
     and_then (entries_of_json js) (\<lambda>es. Inr (e # es)))"

text \<open>
  Modelled from the spec: the loader of the durable form (missing from \<^verbatim>\<open>costs.py\<close>, see
  above). It reads the file with \<^verbatim>\<open>json.load\<close>, takes the summary fields from the sections
  \<^verbatim>\<open>totals\<close>, \<^verbatim>\<open>averages\<close> and \<^verbatim>\<open>timing\<close> and the entries from \<^verbatim>\<open>entries\<close>. A path that
  holds no file is the spec's IOFailure; on a truncated document, and on an int with more
  digits than the interpreter's limit, \<^verbatim>\<open>json.load\<close> raises \<^verbatim>\<open>ValueError\<close>.
\<close>

definition load_costs :: "runtime \<Rightarrow> string \<Rightarrow> filesystem \<Rightarrow> py_error + CostEntry list RunCosts" where
  "load_costs rt path fs =
     (case files fs path of
        None \<Rightarrow> Inl OSError
      | Some Truncated \<Rightarrow> Inl ValueError
      | Some (Document data) \<Rightarrow>
         if \<not> encodable (max_str_digits rt) data then Inl ValueError
         else
         and_then (as_object data) (\<lambda>kv.
         and_then (and_then (field kv ''run_id'') as_string) (\<lambda>rid.
         and_then (and_then (field kv ''model'') as_string) (\<lambda>m.
         and_then (and_then (field kv ''totals'') as_object) (\<lambda>totals.
         and_then (and_then (field kv ''averages'') as_object) (\<lambda>averages.
         and_then (and_then (field kv ''timing'') as_object) (\<lambda>timing.
         and_then (and_then (field totals ''input_tokens'') as_int) (\<lambda>ti.
         and_then (and_then (field totals ''output_tokens'') as_int) (\<lambda>to.
         and_then (and_then (field totals ''total_tokens'') as_int) (\<lambda>tt.
         and_then (and_then (field totals ''total_cost_usd'') as_float) (\<lambda>tc.
         and_then (and_then (field totals ''total_latency_ms'') as_int) (\<lambda>tl.
         and_then (and_then (field averages ''latency_ms'') as_float) (\<lambda>al.
         and_then (and_then (field averages ''cost_per_question_usd'') as_float) (\<lambda>cpq.
         and_then (and_then (field timing ''started_at'') as_string) (\<lambda>sa.
         and_then (and_then (field timing ''completed_at'') as_string) (\<lambda>ca.
         and_then (and_then (and_then (field kv ''entries'') as_array) entries_of_json) (\<lambda>es.
           Inr \<lparr>run_id = rid, entries = es,
                total_input_tokens = ti, total_output_tokens = to, run_total_tokens = tt,
                run_total_cost = tc, total_latency_ms = tl,
                avg_latency_ms = al, cost_per_question = cpq,
                run_model = m, started_at = sa, completed_at = ca\<rparr>)))))))))))))))))"

section \<open>Sample data\<close>

text \<open>
  Three entries of two models, given in an order that is not the order of their timestamps;
  the \<^verbatim>\<open>total_tokens\<close> field of the first disagrees with its token counts. \<open>sample_run\<close> is
  the aggregate of the three.
\<close>

abbreviation sample_first :: CostEntry where
  "sample_first \<equiv>
     \<lparr>model = ''gpt-4o'', input_tokens = 10, output_tokens = 5, total_tokens = 999,
      input_cost = Finite (1 / 2), output_cost = Finite (1 / 4), total_cost = Finite (3 / 4),
      latency_ms = 100, timestamp = ''2024-12-02T09:00:00''\<rparr>"

abbreviation sample_second :: CostEntry where
  "sample_second \<equiv>
     \<lparr>model = ''gpt-4o-mini'', input_tokens = 20, output_tokens = 7, total_tokens = 27,
      input_cost = Finite 1, output_cost = Finite (1 / 4), total_cost = Finite (5 / 4),
      latency_ms = 200, timestamp = ''2024-12-01T08:00:00''\<rparr>"

abbreviation sample_third :: CostEntry where
  "sample_third \<equiv>
     \<lparr>model = ''gpt-4o'', input_tokens = 1, output_tokens = 1, total_tokens = 2,
      input_cost = Finite (1 / 2097152), output_cost = Finite (1 / 2097152),
      total_cost = Finite (1 / 1048576),
      latency_ms = 100, timestamp = ''2024-12-01T12:00:00''\<rparr>"

abbreviation sample_entries :: "CostEntry list" where
  "sample_entries \<equiv> [sample_first, sample_second, sample_third]"

abbreviation sample_run :: "CostEntry list RunCosts" where
  "sample_run \<equiv>
     \<lparr>run_id = ''run-1'', entries = sample_entries,
      total_input_tokens = 31, total_output_tokens = 13, run_total_tokens = 44,
      run_total_cost = Finite (2097153 / 1048576), total_latency_ms = 400,
      avg_latency_ms = Finite (4691249611844267 / 35184372088832),
      cost_per_question = Finite (699051 / 1048576),
      run_model = ''gpt-4o'', started_at = ''2024-12-02T09:00:00'',
      completed_at = ''2024-12-01T12:00:00''\<rparr>"

text \<open>
  \<open>sample_reloaded\<close> is \<open>sample_run\<close> with its three float summaries rounded as the durable
  form rounds them.
\<close>

abbreviation sample_reloaded :: "CostEntry list RunCosts" where
  "sample_reloaded \<equiv>
     \<lparr>run_id = ''run-1'', entries = sample_entries,
      total_input_tokens = 31, total_output_tokens = 13, run_total_tokens = 44,
      run_total_cost = Finite 2, total_latency_ms = 400,
      avg_latency_ms = Finite (4691132330603971 / 35184372088832),
      cost_per_question = Finite (6004802505560413 / 9007199254740992),
      run_model = ''gpt-4o'', started_at = ''2024-12-02T09:00:00'',
      completed_at = ''2024-12-01T12:00:00''\<rparr>"

text \<open>
  An entry of an unpriced model with \<open>n\<close> input tokens, and the aggregate of the list that
  holds this entry alone; \<open>big_entry\<close> and \<open>big_run\<close> are the two at an input token count
  of 4301 digits.
\<close>

abbreviation entry_of_size :: "int \<Rightarrow> CostEntry" where
  "entry_of_size n \<equiv>
     \<lparr>model = ''unknown-model-xyz'', input_tokens = n, output_tokens = 0,
      total_tokens = n,
      input_cost = Finite 0, output_cost = Finite 0, total_cost = Finite 0,
      latency_ms = 100, timestamp = ''2024-12-01T08:00:00''\<rparr>"

abbreviation run_of_size :: "int \<Rightarrow> CostEntry list RunCosts" where
  "run_of_size n \<equiv>
     \<lparr>run_id = ''run-1'', entries = [entry_of_size n],
      total_input_tokens = n, total_output_tokens = 0, run_total_tokens = n,
      run_total_cost = Finite 0, total_latency_ms = 100,
      avg_latency_ms = Finite 100, cost_per_question = Finite 0,
      run_model = ''unknown-model-xyz'', started_at = ''2024-12-01T08:00:00'',
      completed_at = ''2024-12-01T08:00:00''\<rparr>"

abbreviation big_entry :: CostEntry where
  "big_entry \<equiv> entry_of_size (10 ^ 4300)"

abbreviation big_run :: "CostEntry list RunCosts" where
  "big_run \<equiv> run_of_size (10 ^ 4300)"

text \<open>
  A heap with one list object, at address 0, which holds the three sample entries, the
  objects at the addresses 1, 2 and 3.
\<close>

definition sample_heap :: heap where
  "sample_heap =
     \<lparr>list_at = (\<lambda>a. if a = 0 then [1, 2, 3] else []),
      entry_at = (\<lambda>p. if p = 1 then sample_first else if p = 2 then sample_second
                       else sample_third)\<rparr>"

section \<open>Rounding to the nearest double\<close>

lemma round_half_even_floor: "\<lfloor>x\<rfloor> \<le> round_half_even x \<and> round_half_even x \<le> \<lfloor>x\<rfloor> + 1"
  by (simp add: round_half_even_def Let_def)

lemma round_half_even_near: "\<bar>of_int (round_half_even x) - x\<bar> \<le> 1 / 2"
  unfolding round_half_even_def Let_def by (auto; linarith)

lemma round_half_even_mono_int: "of_int k \<le> x \<Longrightarrow> k \<le> round_half_even x"
  using round_half_even_floor [of x] le_floor_iff [of k x] by linarith

lemma round_half_even_le_int:
  assumes "x \<le> of_int k"
  shows "round_half_even x \<le> k"
proof (cases "x = of_int k")
  case True
  then show ?thesis by (simp add: round_half_even_def)
next
  case False
  with assms have "x < of_int k" by simp
  then have "\<lfloor>x\<rfloor> < k" by (simp add: floor_less_iff)
  with round_half_even_floor [of x] show ?thesis by linarith
qed

lemma ilog2_ge1:
  assumes "1 \<le> q"
  shows "0 \<le> ilog2 q" and "2 powi (ilog2 q) \<le> q" and "q < 2 powi (ilog2 q + 1)"
proof -
  have fl: "0 < \<lfloor>q\<rfloor>" using assms by simp
  from bitlen_bounds [OF fl]
  have b: "2 ^ nat (bitlen \<lfloor>q\<rfloor> - 1) \<le> \<lfloor>q\<rfloor>" "\<lfloor>q\<rfloor> < 2 ^ nat (bitlen \<lfloor>q\<rfloor>)" by auto
  have pos: "1 \<le> bitlen \<lfloor>q\<rfloor>" using fl by (simp add: bitlen_alt_def)
  have e: "ilog2 q = bitlen \<lfloor>q\<rfloor> - 1" using assms by (simp add: ilog2_def)
  show "0 \<le> ilog2 q" using pos e by simp
  have "(2::real) powi (ilog2 q) = 2 ^ nat (bitlen \<lfloor>q\<rfloor> - 1)"
    using pos e by (simp add: power_int_def)
  also have "\<dots> \<le> of_int \<lfloor>q\<rfloor>" using b(1)
    by (metis of_int_le_iff of_int_numeral of_int_power)
  also have "\<dots> \<le> q" by simp
  finally show "2 powi (ilog2 q) \<le> q" .
  have "\<lfloor>q\<rfloor> + 1 \<le> 2 ^ nat (bitlen \<lfloor>q\<rfloor>)" using b(2) by simp
  then have "of_int (\<lfloor>q\<rfloor> + 1) \<le> (2::real) ^ nat (bitlen \<lfloor>q\<rfloor>)"
    by (metis of_int_le_iff of_int_numeral of_int_power)
  moreover have "q < of_int (\<lfloor>q\<rfloor> + 1)" by linarith
  moreover have "(2::real) powi (ilog2 q + 1) = 2 ^ nat (bitlen \<lfloor>q\<rfloor>)"
    using pos e by (simp add: power_int_def)
  ultimately show "q < 2 powi (ilog2 q + 1)" by linarith
qed


lemma quantum_pos: "0 < quantum q"
  by (simp add: quantum_def)

lemma rnd_ge1:
  assumes "1 \<le> q"
  shows "2 powi (ilog2 q) \<le> rnd q" and "rnd q \<le> 2 powi (ilog2 q + 1)"
proof -
  let ?e = "ilog2 q"
  let ?u = "(2::real) powi (?e - 52)"
  have e0: "0 \<le> ?e" by (rule ilog2_ge1(1) [OF assms])
  have qu: "quantum q = ?u" using assms e0 by (simp add: quantum_def max_def)
  have upos: "0 < ?u" by simp
  have pe: "(2::real) powi ?e = 2 ^ 52 * ?u"
    using power_int_add [of "2::real" 52 "?e - 52"] by simp
  have pe1: "(2::real) powi (?e + 1) = 2 ^ 53 * ?u"
    using power_int_add [of "2::real" 53 "?e - 52"] by (simp add: add.commute)
  have q0: "q \<noteq> 0" using assms by simp
  have r: "rnd q = of_int (round_half_even (q / ?u)) * ?u"
    using q0 qu by (simp add: rnd_def)
  have lo: "of_int (2 ^ 52) \<le> q / ?u"
    using ilog2_ge1(2) [OF assms] pe upos by (simp add: pos_le_divide_eq)
  have hi: "q / ?u \<le> of_int (2 ^ 53)"
    using ilog2_ge1(3) [OF assms] pe1 upos by (simp add: pos_divide_le_eq)
  have "2 ^ 52 \<le> round_half_even (q / ?u)" by (rule round_half_even_mono_int [OF lo])
  then have "(2::real) ^ 52 \<le> of_int (round_half_even (q / ?u))"
    by (metis of_int_le_iff of_int_numeral of_int_power)
  then show "2 powi ?e \<le> rnd q" using upos by (simp add: r pe)
  have "round_half_even (q / ?u) \<le> 2 ^ 53" by (rule round_half_even_le_int [OF hi])
  then have "of_int (round_half_even (q / ?u)) \<le> (2::real) ^ 53"
    by (metis of_int_le_iff of_int_numeral of_int_power)
  then show "rnd q \<le> 2 powi (?e + 1)" using upos by (simp add: r pe1)
qed

lemma rnd_int_range:
  assumes "1 \<le> q" "q < 2 ^ 1023"
  shows "1 \<le> rnd q" and "rnd q < 2 ^ 1024"
proof -
  have e0: "0 \<le> ilog2 q" by (rule ilog2_ge1(1) [OF assms(1)])
  have "(1::real) \<le> 2 powi (ilog2 q)"
    using power_int_increasing [of 0 "ilog2 q" "2::real"] e0 by simp
  with rnd_ge1(1) [OF assms(1)] show "1 \<le> rnd q" by linarith
  have "(2::real) powi (ilog2 q) < 2 powi 1023"
    using ilog2_ge1(2) [OF assms(1)] assms(2) by simp
  then have "ilog2 q < 1023"
    by (rule power_int_le_imp_less_exp [rotated]) simp_all
  then have "(2::real) powi (ilog2 q + 1) \<le> 2 powi 1023"
    by (intro power_int_increasing) simp_all
  with rnd_ge1(2) [OF assms(1)] show "rnd q < 2 ^ 1024" by simp
qed


lemma ilog2_lt1:
  assumes "0 < q" "q < 1"
  shows "ilog2 q < 0" and "2 powi (ilog2 q) \<le> q" and "q < 2 powi (ilog2 q + 1)"
proof -
  let ?m = "\<lceil>1 / q\<rceil> - 1"
  have inv: "1 < 1 / q" using assms by simp
  then have "2 \<le> \<lceil>1 / q\<rceil>" by linarith
  then have m1: "0 < ?m" by simp
  have mlt: "of_int ?m < 1 / q" by linarith
  have mge: "1 / q \<le> of_int ?m + 1" by linarith
  from bitlen_bounds [OF m1]
  have b: "2 ^ nat (bitlen ?m - 1) \<le> ?m" "?m < 2 ^ nat (bitlen ?m)" by auto
  have pos: "1 \<le> bitlen ?m" using m1 by (simp add: bitlen_alt_def)
  have e: "ilog2 q = - bitlen ?m" using assms by (simp add: ilog2_def)
  show "ilog2 q < 0" using pos e by simp
  have "?m + 1 \<le> 2 ^ nat (bitlen ?m)" using b(2) by simp
  then have "of_int (?m + 1) \<le> (2::real) ^ nat (bitlen ?m)"
    by (metis of_int_le_iff of_int_numeral of_int_power)
  moreover have "1 / q \<le> of_int (?m + 1)" by linarith
  ultimately have up: "1 / q \<le> 2 ^ nat (bitlen ?m)" by (rule order_trans [rotated])
  have p1: "(2::real) powi (ilog2 q) = 1 / 2 ^ nat (bitlen ?m)"
  proof -
    have "(2::real) powi (ilog2 q) = inverse (2 powi (bitlen ?m))"
      using e by (simp only: power_int_minus)
    also have "(2::real) powi (bitlen ?m) = 2 ^ nat (bitlen ?m)"
      using pos by (simp add: power_int_def)
    finally show ?thesis by (simp add: inverse_eq_divide)
  qed
  have "1 / 2 ^ nat (bitlen ?m) \<le> q"
    using up assms(1) by (simp add: field_simps)
  then show "2 powi (ilog2 q) \<le> q" using p1 by simp
  have "(2::real) ^ nat (bitlen ?m - 1) \<le> of_int ?m" using b(1)
    by (metis of_int_le_iff of_int_numeral of_int_power)
  with mlt have lo: "2 ^ nat (bitlen ?m - 1) < 1 / q" by linarith
  have p2: "(2::real) powi (ilog2 q + 1) = 1 / 2 ^ nat (bitlen ?m - 1)"
  proof -
    have "ilog2 q + 1 = - (bitlen ?m - 1)" using e by simp
    then have "(2::real) powi (ilog2 q + 1) = inverse (2 powi (bitlen ?m - 1))"
      by (simp only: power_int_minus)
    also have "(2::real) powi (bitlen ?m - 1) = 2 ^ nat (bitlen ?m - 1)"
      using pos by (simp add: power_int_def)
    finally show ?thesis by (simp add: inverse_eq_divide)
  qed
  have "q < 1 / 2 ^ nat (bitlen ?m - 1)"
    using lo assms(1) by (simp add: field_simps)
  then show "q < 2 powi (ilog2 q + 1)" using p2 by simp
qed

lemma ilog2_bounds:
  assumes "0 < q"
  shows "2 powi (ilog2 q) \<le> q" and "q < 2 powi (ilog2 q + 1)"
  using ilog2_ge1 [of q] ilog2_lt1 [of q] assms by (cases "1 \<le> q"; simp)+

lemma exp_less_of_power_int_less:
  assumes "(2::real) powi a < 2 powi b"
  shows "a < b"
proof (rule ccontr)
  assume "\<not> a < b"
  then have "b \<le> a" by simp
  then have "(2::real) powi b \<le> 2 powi a" by (intro power_int_increasing) simp_all
  with assms show False by simp
qed

lemma ilog2_unique:
  assumes "0 < q" "2 powi e \<le> q" "q < 2 powi (e + 1)"
  shows "ilog2 q = e"
proof -
  have "(2::real) powi (ilog2 q) < 2 powi (e + 1)"
    using ilog2_bounds(1) [OF assms(1)] assms(3) by linarith
  then have a: "ilog2 q < e + 1" by (rule exp_less_of_power_int_less)
  have "(2::real) powi e < 2 powi (ilog2 q + 1)"
    using ilog2_bounds(2) [OF assms(1)] assms(2) by linarith
  then have b: "e < ilog2 q + 1" by (rule exp_less_of_power_int_less)
  from a b show ?thesis by simp
qed

lemma round_half_even_of_int: "round_half_even (of_int k) = k"
  by (simp add: round_half_even_def)

lemma round_half_even_minus: "round_half_even (- x) = - round_half_even x"
proof (cases "x = of_int \<lfloor>x\<rfloor>")
  case True
  then obtain k where "x = of_int k" ..
  then have "- x = of_int (- k)" by simp
  then show ?thesis using \<open>x = of_int k\<close> by (simp only: round_half_even_of_int)
next
  case False
  have fm: "\<lfloor>- x\<rfloor> = - \<lfloor>x\<rfloor> - 1"
    using False by (simp add: floor_minus ceiling_altdef)
  have d: "- x - of_int \<lfloor>- x\<rfloor> = 1 - (x - of_int \<lfloor>x\<rfloor>)"
    by (simp add: fm)
  show ?thesis
    unfolding round_half_even_def Let_def d unfolding fm
    by auto
qed

lemma round_half_even_even_ge:
  assumes "even k" "of_int k - 1 / 2 \<le> x"
  shows "k \<le> round_half_even x"
proof (cases "k \<le> \<lfloor>x\<rfloor>")
  case True
  with round_half_even_floor [of x] show ?thesis by linarith
next
  case False
  have "of_int (k - 1) \<le> x" using assms(2) by simp
  then have "k - 1 \<le> \<lfloor>x\<rfloor>" by (simp only: le_floor_iff)
  with False have f: "\<lfloor>x\<rfloor> = k - 1" by simp
  then have od: "odd \<lfloor>x\<rfloor>" using assms(1) by simp
  have "1 / 2 \<le> x - of_int \<lfloor>x\<rfloor>" using assms(2) f by simp
  then have "round_half_even x = \<lfloor>x\<rfloor> + 1"
    using od by (simp add: round_half_even_def Let_def)
  then show ?thesis using f by simp
qed

lemma quantum_minus: "quantum (- q) = quantum q"
  by (simp add: quantum_def)

lemma rnd_minus: "rnd (- q) = - rnd q"
  by (simp add: rnd_def quantum_minus round_half_even_minus)

lemma rnd_near: "\<bar>rnd q - q\<bar> \<le> quantum q / 2"
proof (cases "q = 0")
  case True
  then show ?thesis using quantum_pos [of q] by (simp add: rnd_def)
next
  case False
  let ?u = "quantum q"
  have u: "0 < ?u" by (rule quantum_pos)
  have "rnd q - q = (of_int (round_half_even (q / ?u)) - q / ?u) * ?u"
    using False u by (simp add: rnd_def field_simps)
  then have "\<bar>rnd q - q\<bar> = \<bar>of_int (round_half_even (q / ?u)) - q / ?u\<bar> * ?u"
    using u by (simp add: abs_mult)
  also have "\<dots> \<le> (1 / 2) * ?u"
    using round_half_even_near [of "q / ?u"] u by (intro mult_right_mono) simp_all
  finally show ?thesis by simp
qed


lemma rnd_exact:
  assumes q: "q = of_int m * 2 powi k" and m: "\<bar>m\<bar> < 2 ^ 53" and k: "- 1074 \<le> k"
  shows "rnd q = q"
proof (cases "q = 0")
  case True
  then show ?thesis by (simp add: rnd_def)
next
  case False
  let ?j = "max (ilog2 \<bar>q\<bar>) (- 1022) - 52"
  have pos: "0 < \<bar>q\<bar>" using False by simp
  have "\<bar>q\<bar> = of_int \<bar>m\<bar> * 2 powi k" by (simp add: q abs_mult)
  also have "\<dots> < of_int (2 ^ 53) * 2 powi k"
    using m by (intro mult_strict_right_mono) simp_all
  also have "\<dots> = 2 powi (53 + k)"
    using power_int_add [of "2::real" 53 k] by simp
  finally have "(2::real) powi (ilog2 \<bar>q\<bar>) < 2 powi (53 + k)"
    using ilog2_bounds(1) [OF pos] by linarith
  then have "ilog2 \<bar>q\<bar> < 53 + k" by (rule exp_less_of_power_int_less)
  with k have jk: "?j \<le> k" by simp
  have split: "(2::real) powi k = 2 powi (k - ?j) * 2 powi ?j"
    using power_int_add [of "2::real" "k - ?j" ?j] by simp
  have nn: "(2::real) powi (k - ?j) = of_int (2 ^ nat (k - ?j))"
    using jk by (simp add: power_int_def)
  have "q / quantum q = of_int m * 2 powi (k - ?j)"
    unfolding quantum_def by (subst q, subst split) simp
  also have "\<dots> = of_int (m * 2 ^ nat (k - ?j))" by (simp add: nn)
  finally have "round_half_even (q / quantum q) = m * 2 ^ nat (k - ?j)"
    by (simp only: round_half_even_of_int)
  then have "rnd q = of_int (m * 2 ^ nat (k - ?j)) * quantum q"
    using False by (simp add: rnd_def)
  also have "\<dots> = of_int m * (2 powi (k - ?j) * 2 powi ?j)"
    by (simp add: nn quantum_def)
  also have "\<dots> = of_int m * 2 powi k" by (simp only: split [symmetric])
  also have "\<dots> = q" by (rule q [symmetric])
  finally show ?thesis .
qed

lemma quantum_le:
  assumes "q \<noteq> 0" "\<bar>q\<bar> < 2 ^ 1024"
  shows "quantum q \<le> 2 ^ 971"
proof -
  have pos: "0 < \<bar>q\<bar>" using assms(1) by simp
  have "(2::real) powi (ilog2 \<bar>q\<bar>) < 2 powi 1024"
    using ilog2_bounds(1) [OF pos] assms(2) by simp
  then have "ilog2 \<bar>q\<bar> < 1024" by (rule exp_less_of_power_int_less)
  then have "max (ilog2 \<bar>q\<bar>) (- 1022) - 52 \<le> 971" by simp
  then have "(2::real) powi (max (ilog2 \<bar>q\<bar>) (- 1022) - 52) \<le> 2 powi 971"
    by (intro power_int_increasing) simp_all
  then show ?thesis by (simp add: quantum_def)
qed

lemma rnd_below_overflow:
  assumes "\<bar>q\<bar> < 2 ^ 1024 - 2 ^ 970"
  shows "\<bar>rnd q\<bar> < 2 ^ 1024"
proof (cases "q = 0")
  case True
  then show ?thesis by (simp add: rnd_def)
next
  case False
  have "\<bar>q\<bar> < 2 ^ 1024" using assms by simp
  from quantum_le [OF False this] have "quantum q / 2 \<le> 2 ^ 970" by simp
  with rnd_near [of q] have "\<bar>rnd q - q\<bar> \<le> 2 ^ 970" by linarith
  then have "\<bar>rnd q\<bar> \<le> \<bar>q\<bar> + 2 ^ 970" by linarith
  with assms show ?thesis by linarith
qed

lemma rnd_at_overflow:
  assumes "2 ^ 1024 - 2 ^ 970 \<le> q"
  shows "2 ^ 1024 \<le> rnd q"
proof -
  have q1: "1 \<le> q" using assms by simp
  show ?thesis
  proof (cases "2 ^ 1024 \<le> q")
    case True
    have "(2::real) powi 1024 < 2 powi (ilog2 q + 1)"
      using ilog2_ge1(3) [OF q1] True by simp
    then have "1024 < ilog2 q + 1" by (rule exp_less_of_power_int_less)
    then have "(2::real) powi 1024 \<le> 2 powi (ilog2 q)"
      by (intro power_int_increasing) simp_all
    with rnd_ge1(1) [OF q1] show ?thesis by simp
  next
    case False
    have e: "ilog2 q = 1023"
      using assms False q1 by (intro ilog2_unique) simp_all
    have qu: "quantum q = 2 ^ 971" using q1 by (simp add: quantum_def e)
    have "of_int (2 ^ 53) - 1 / 2 \<le> q / 2 ^ 971"
      using assms by (simp add: field_simps)
    then have "2 ^ 53 \<le> round_half_even (q / 2 ^ 971)"
      by (intro round_half_even_even_ge) simp_all
    then have "(2::real) ^ 53 \<le> of_int (round_half_even (q / 2 ^ 971))"
      by (metis of_int_le_iff of_int_numeral of_int_power)
    then have "(2::real) ^ 53 * 2 ^ 971 \<le> of_int (round_half_even (q / 2 ^ 971)) * 2 ^ 971"
      by (intro mult_right_mono) simp_all
    then show ?thesis using q1 by (simp add: rnd_def qu)
  qed
qed

lemma overflows_iff: "overflows q \<longleftrightarrow> 2 ^ 1024 - 2 ^ 970 \<le> \<bar>q\<bar>"
proof
  assume "overflows q"
  then show "2 ^ 1024 - 2 ^ 970 \<le> \<bar>q\<bar>"
    using rnd_below_overflow [of q] by (fastforce simp: overflows_def)
next
  assume a: "2 ^ 1024 - 2 ^ 970 \<le> \<bar>q\<bar>"
  show "overflows q"
  proof (cases "0 \<le> q")
    case True
    with a rnd_at_overflow [of q] show ?thesis by (simp add: overflows_def)
  next
    case False
    with a rnd_at_overflow [of "- q"] show ?thesis by (simp add: overflows_def rnd_minus)
  qed
qed

section \<open>Evaluating float operations on concrete numbers\<close>

lemmas float_eval =
  rnd_def quantum_def ilog2_def compute_bitlen power_int_minus_divide round_half_even_def
  Let_def overflows_def to_double_def float_literal_def

lemmas sum_eval =
  cpython_311_def cpython_312_def py_sum_plain_def py_sum_compensated_def float_sub_def

text \<open>
  The two builtin sums differ: for the floats 0.1, 0.2 and 0.3 the plain sum is
  0.6000000000000001 and the compensated sum is 0.6.
\<close>

lemma builtin_sum_differs:
  "builtin_sum cpython_311 [float_literal (1 / 10), float_literal (2 / 10), float_literal (3 / 10)] =
     Finite (5404319552844596 / 9007199254740992)"
  "builtin_sum cpython_312 [float_literal (1 / 10), float_literal (2 / 10), float_literal (3 / 10)] =
     float_literal (6 / 10)"
  by (simp_all add: sum_eval float_eval)

lemma to_double_zero: "to_double 0 = Finite 0"
  by (simp add: to_double_def overflows_def rnd_def)

lemma float_of_int_count:
  assumes "0 < n" "n < 2 ^ 63"
  shows "float_of_int n = Inr (Finite (rnd (of_int n)))" and "rnd (of_int n) \<noteq> 0"
proof -
  have lt: "real_of_int n < 2 ^ 63" using assms(2)
    by (metis of_int_less_iff of_int_numeral of_int_power)
  have ge: "1 \<le> real_of_int n" using assms(1) by simp
  have "\<not> overflows (of_int n)" using lt ge by (simp add: overflows_iff)
  then show "float_of_int n = Inr (Finite (rnd (of_int n)))" by (simp add: float_of_int_def)
  have "real_of_int n < 2 ^ 1023" using lt by simp
  from rnd_int_range(1) [OF ge this] show "rnd (of_int n) \<noteq> 0" by simp
qed

lemma float_truediv_int_count:
  assumes "0 < n" "n < 2 ^ 63"
  shows "float_truediv_int x n = Inr (float_quotient x (Finite (rnd (of_int n))))"
  using float_of_int_count [OF assms] by (simp add: float_truediv_int_def float_truediv_def)

section \<open>Aggregation\<close>

lemma aggregate_costs_returns:
  assumes "es \<noteq> []" and "length es < 2 ^ 63"
    and "\<not> overflows (of_int (sum_list (map latency_ms es)) / of_nat (length es))"
  shows "aggregate_costs rt es rid =
    Inr \<lparr>run_id = rid,
         entries = es,
         total_input_tokens = sum_list (map input_tokens es),
         total_output_tokens = sum_list (map output_tokens es),
         run_total_tokens = sum_list (map input_tokens es) + sum_list (map output_tokens es),
         run_total_cost = builtin_sum rt (map total_cost es),
         total_latency_ms = sum_list (map latency_ms es),
         avg_latency_ms = Finite (rnd (of_int (sum_list (map latency_ms es)) / of_nat (length es))),
         cost_per_question =
           float_quotient (builtin_sum rt (map total_cost es)) (Finite (rnd (of_nat (length es)))),
         run_model = model (hd es),
         started_at = timestamp (hd es),
         completed_at = timestamp (last es)\<rparr>"
proof -
  have n0: "0 < int (length es)" using assms(1) by simp
  have n1: "int (length es) < 2 ^ 63" using assms(2)
    by (metis of_nat_less_iff of_nat_numeral of_nat_power)
  show ?thesis
    using assms(1,3) float_truediv_int_count [OF n0 n1]
    by (simp add: aggregate_costs_def int_truediv_def Let_def)
qed

lemma aggregate_costs_overflow:
  assumes "es \<noteq> []"
    and "overflows (of_int (sum_list (map latency_ms es)) / of_nat (length es))"
  shows "aggregate_costs rt es rid = Inl OverflowError"
  using assms by (simp add: aggregate_costs_def int_truediv_def Let_def)

lemma aggregate_costs_fields:
  assumes "aggregate_costs rt es rid = Inr r"
  shows "es \<noteq> []"
    and "run_id r = rid"
    and "entries r = es"
    and "total_input_tokens r = sum_list (map input_tokens es)"
    and "total_output_tokens r = sum_list (map output_tokens es)"
    and "run_total_tokens r = sum_list (map input_tokens es) + sum_list (map output_tokens es)"
    and "run_total_cost r = builtin_sum rt (map total_cost es)"
    and "total_latency_ms r = sum_list (map latency_ms es)"
    and "int_truediv (sum_list (map latency_ms es)) (int (length es)) = Inr (avg_latency_ms r)"
    and "float_truediv_int (builtin_sum rt (map total_cost es)) (int (length es)) = Inr (cost_per_question r)"
    and "run_model r = model (hd es)"
    and "started_at r = timestamp (hd es)"
    and "completed_at r = timestamp (last es)"
  using assms
  by (auto simp: aggregate_costs_def Let_def split: if_splits sum.splits)

lemma sample_run_aggregate:
  "aggregate_costs cpython_312 sample_entries ''run-1'' = Inr sample_run"
  by (simp add: aggregate_costs_returns overflows_iff sum_eval float_eval)

text \<open>
  C1 (as amended). For every non-empty list of entries (of fewer than \<open>2 ^ 63\<close> items, as
  every CPython list is) whose mean latency, the sum of \<^verbatim>\<open>latency_ms\<close> over the entry count,
  is below the float overflow threshold \<open>2 ^ 1024 - 2 ^ 970\<close> in magnitude, and every run id,
  \<^verbatim>\<open>aggregate_costs\<close> returns a \<^verbatim>\<open>RunCosts\<close> whose token, cost and latency totals are the sums
  of the entries' fields over the whole list (the integer totals exactly; the cost total is
  what the builtin \<^verbatim>\<open>sum\<close> of the interpreter returns for the costs of the entries), whose
  \<^verbatim>\<open>avg_latency_ms\<close> is the total latency divided by the entry count and whose
  \<^verbatim>\<open>cost_per_question\<close> is the total cost divided by the entry count.
\<close>

theorem aggregate_costs_sums:
  assumes "es \<noteq> []" and "length es < 2 ^ 63"
    and "\<bar>real_of_int (sum_list (map latency_ms es))\<bar> / real (length es) < 2 ^ 1024 - 2 ^ 970"
  shows "\<exists>r. aggregate_costs rt es rid = Inr r \<and>
           total_input_tokens r = sum_list (map input_tokens es) \<and>
           total_output_tokens r = sum_list (map output_tokens es) \<and>
           run_total_cost r = builtin_sum rt (map total_cost es) \<and>
           total_latency_ms r = sum_list (map latency_ms es) \<and>
           int_truediv (total_latency_ms r) (int (length es)) = Inr (avg_latency_ms r) \<and>
           float_truediv_int (run_total_cost r) (int (length es)) = Inr (cost_per_question r)"
proof -
  have "\<not> overflows (of_int (sum_list (map latency_ms es)) / of_nat (length es))"
    using assms(3) by (simp add: overflows_iff)
  from aggregate_costs_returns [OF assms(1,2) this, of rt rid]
  obtain r where r: "aggregate_costs rt es rid = Inr r" by blast
  from aggregate_costs_fields [OF r] r show ?thesis by simp
qed

text \<open>
  The sample run satisfies the hypotheses of C1, and its totals and averages are the sums and
  quotients. Its costs add up without rounding, so the plain sum of CPython 3.11 and the
  compensated sum of CPython 3.12 give the same total.
\<close>

theorem aggregate_costs_sums_witness:
  "sample_entries \<noteq> [] \<and>
   length sample_entries < 2 ^ 63 \<and>
   \<bar>real_of_int (sum_list (map latency_ms sample_entries))\<bar>
      / real (length sample_entries) < 2 ^ 1024 - 2 ^ 970 \<and>
   (\<exists>r. aggregate_costs cpython_312 sample_entries ''run-1'' = Inr r \<and>
        total_input_tokens r = 31 \<and> total_output_tokens r = 13 \<and>
        run_total_cost r = Finite (2097153 / 1048576) \<and> total_latency_ms r = 400 \<and>
        avg_latency_ms r = Finite (4691249611844267 / 35184372088832) \<and>
        cost_per_question r = Finite (699051 / 1048576)) \<and>
   (\<exists>r. aggregate_costs cpython_311 sample_entries ''run-1'' = Inr r \<and>
        run_total_cost r = Finite (2097153 / 1048576))"
proof -
  let ?es = "sample_entries"
  have h1: "?es \<noteq> []" by simp
  have h2: "length ?es < 2 ^ 63" by simp
  have h3: "\<bar>real_of_int (sum_list (map latency_ms ?es))\<bar> / real (length ?es) < 2 ^ 1024 - 2 ^ 970"
    by simp
  from aggregate_costs_sums [OF h1 h2 h3, where rt = cpython_312 and rid = "''run-1''"]
  obtain r where r: "aggregate_costs cpython_312 ?es ''run-1'' = Inr r"
    and f: "total_input_tokens r = sum_list (map input_tokens ?es)"
      "total_output_tokens r = sum_list (map output_tokens ?es)"
      "run_total_cost r = builtin_sum cpython_312 (map total_cost ?es)"
      "total_latency_ms r = sum_list (map latency_ms ?es)"
      "int_truediv (total_latency_ms r) (int (length ?es)) = Inr (avg_latency_ms r)"
      "float_truediv_int (run_total_cost r) (int (length ?es)) = Inr (cost_per_question r)"
    by blast
  have s: "builtin_sum cpython_312 (map total_cost ?es) = Finite (2097153 / 1048576)"
    by (simp add: sum_eval float_eval)
  have a: "int_truediv 400 3 = Inr (Finite (4691249611844267 / 35184372088832))"
    by (simp add: int_truediv_def float_eval)
  have c: "float_truediv_int (Finite (2097153 / 1048576)) 3 = Inr (Finite (699051 / 1048576))"
    by (simp add: float_truediv_int_def float_of_int_def float_truediv_def float_eval)
  from f s a c have "total_input_tokens r = 31" "total_output_tokens r = 13"
    "run_total_cost r = Finite (2097153 / 1048576)" "total_latency_ms r = 400"
    "avg_latency_ms r = Finite (4691249611844267 / 35184372088832)"
    "cost_per_question r = Finite (699051 / 1048576)"
    by simp_all
  with r have new: "\<exists>r. aggregate_costs cpython_312 ?es ''run-1'' = Inr r \<and>
        total_input_tokens r = 31 \<and> total_output_tokens r = 13 \<and>
        run_total_cost r = Finite (2097153 / 1048576) \<and> total_latency_ms r = 400 \<and>
        avg_latency_ms r = Finite (4691249611844267 / 35184372088832) \<and>
        cost_per_question r = Finite (699051 / 1048576)"
    by blast
  from aggregate_costs_sums [OF h1 h2 h3, where rt = cpython_311 and rid = "''run-1''"]
  obtain r' where r': "aggregate_costs cpython_311 ?es ''run-1'' = Inr r'"
    and f': "run_total_cost r' = builtin_sum cpython_311 (map total_cost ?es)"
    by blast
  have "builtin_sum cpython_311 (map total_cost ?es) = Finite (2097153 / 1048576)"
    by (simp add: sum_eval float_eval)
  with r' f' have old: "\<exists>r. aggregate_costs cpython_311 ?es ''run-1'' = Inr r \<and>
        run_total_cost r = Finite (2097153 / 1048576)"
    by simp
  from new old h1 h2 h3 show ?thesis by blast
qed

text \<open>
  C1 as stated fails: for a one-entry list whose latency is \<open>2 ^ 1024\<close> milliseconds,
  \<^verbatim>\<open>total_latency / len(entries)\<close> raises \<^verbatim>\<open>OverflowError\<close> (the quotient is too large for a
  float), so no \<^verbatim>\<open>RunCosts\<close> is returned.
\<close>

theorem aggregate_costs_sums_counterexample:
  "[\<lparr>model = ''gpt-4o'', input_tokens = 10, output_tokens = 5, total_tokens = 15,
      input_cost = Finite (1 / 2), output_cost = Finite (1 / 4), total_cost = Finite (3 / 4),
      latency_ms = 2 ^ 1024, timestamp = ''2024-12-01T08:00:00''\<rparr>] \<noteq> [] \<and>
   aggregate_costs cpython_312
     [\<lparr>model = ''gpt-4o'', input_tokens = 10, output_tokens = 5, total_tokens = 15,
        input_cost = Finite (1 / 2), output_cost = Finite (1 / 4), total_cost = Finite (3 / 4),
        latency_ms = 2 ^ 1024, timestamp = ''2024-12-01T08:00:00''\<rparr>] ''run-1'' =
   Inl OverflowError"
  by (simp add: aggregate_costs_overflow overflows_iff)

text \<open>
  C2 (as amended). On the empty list \<^verbatim>\<open>aggregate_costs\<close> fails with the \<^verbatim>\<open>ValueError\<close> of
  its guard (the spec's EmptyInputError); on a non-empty list it never fails with that error.
  A non-empty list (of fewer than \<open>2 ^ 63\<close> items) is aggregated without raising exactly when
  its mean latency is below \<open>2 ^ 1024 - 2 ^ 970\<close> in magnitude; otherwise the division of the
  total latency by the entry count raises \<^verbatim>\<open>OverflowError\<close>.
\<close>

theorem aggregate_costs_raises:
  "aggregate_costs rt [] rid = Inl ValueError \<and>
   (es \<noteq> [] \<longrightarrow> aggregate_costs rt es rid \<noteq> Inl ValueError) \<and>
   (es \<noteq> [] \<and> length es < 2 ^ 63 \<longrightarrow>
     (if \<bar>real_of_int (sum_list (map latency_ms es))\<bar> / real (length es) < 2 ^ 1024 - 2 ^ 970
      then \<exists>r. aggregate_costs rt es rid = Inr r
      else aggregate_costs rt es rid = Inl OverflowError))"
proof (intro conjI impI)
  show "aggregate_costs rt [] rid = Inl ValueError" by (simp add: aggregate_costs_def)
next
  assume "es \<noteq> []"
  then show "aggregate_costs rt es rid \<noteq> Inl ValueError"
    by (auto simp: aggregate_costs_def Let_def int_truediv_def float_truediv_int_def
        float_of_int_def float_truediv_def split: sum.splits if_splits)
next
  assume a: "es \<noteq> [] \<and> length es < 2 ^ 63"
  show "if \<bar>real_of_int (sum_list (map latency_ms es))\<bar> / real (length es) < 2 ^ 1024 - 2 ^ 970
      then \<exists>r. aggregate_costs rt es rid = Inr r
      else aggregate_costs rt es rid = Inl OverflowError"
  proof (cases "overflows (of_int (sum_list (map latency_ms es)) / of_nat (length es))")
    case True
    from aggregate_costs_overflow [OF _ True, of rt rid] a True show ?thesis
      by (simp add: overflows_iff)
  next
    case False
    from aggregate_costs_returns [OF _ _ False, of rt rid] a False show ?thesis
      by (simp add: overflows_iff)
  qed
qed

text \<open>
  C2 at the empty list and at the sample entries.
\<close>

theorem aggregate_costs_raises_witness:
  "aggregate_costs cpython_312 [] ''run-1'' = Inl ValueError \<and>
   sample_entries \<noteq> [] \<and>
   length sample_entries < 2 ^ 63 \<and>
   aggregate_costs cpython_312 sample_entries ''run-1'' \<noteq> Inl ValueError \<and>
   \<bar>real_of_int (sum_list (map latency_ms sample_entries))\<bar>
      / real (length sample_entries) < 2 ^ 1024 - 2 ^ 970 \<and>
   (\<exists>r. aggregate_costs cpython_312 sample_entries ''run-1'' = Inr r)"
  using aggregate_costs_raises [where rt = cpython_312 and rid = "''run-1''" and es = sample_entries]
  by simp

text \<open>
  C2 as stated fails: a non-empty list of two entries with latencies of \<open>2 ^ 1024\<close>
  milliseconds makes \<^verbatim>\<open>aggregate_costs\<close> raise \<^verbatim>\<open>OverflowError\<close>.
\<close>

theorem aggregate_costs_raises_counterexample:
  "[\<lparr>model = ''gpt-4o'', input_tokens = 10, output_tokens = 5, total_tokens = 15,
      input_cost = Finite (1 / 2), output_cost = Finite (1 / 4), total_cost = Finite (3 / 4),
      latency_ms = 2 ^ 1024, timestamp = ''2024-12-01T08:00:00''\<rparr>,
    \<lparr>model = ''gpt-4o'', input_tokens = 20, output_tokens = 7, total_tokens = 27,
      input_cost = Finite 1, output_cost = Finite (1 / 4), total_cost = Finite (5 / 4),
      latency_ms = 2 ^ 1024, timestamp = ''2024-12-01T08:00:05''\<rparr>] \<noteq> [] \<and>
   aggregate_costs cpython_312
     [\<lparr>model = ''gpt-4o'', input_tokens = 10, output_tokens = 5, total_tokens = 15,
        input_cost = Finite (1 / 2), output_cost = Finite (1 / 4), total_cost = Finite (3 / 4),
        latency_ms = 2 ^ 1024, timestamp = ''2024-12-01T08:00:00''\<rparr>,
      \<lparr>model = ''gpt-4o'', input_tokens = 20, output_tokens = 7, total_tokens = 27,
        input_cost = Finite 1, output_cost = Finite (1 / 4), total_cost = Finite (5 / 4),
        latency_ms = 2 ^ 1024, timestamp = ''2024-12-01T08:00:05''\<rparr>] ''run-1'' =
   Inl OverflowError"
  by (simp add: aggregate_costs_overflow overflows_iff)

text \<open>
  C5. For every non-empty entry list, the \<^verbatim>\<open>RunCosts\<close> that \<^verbatim>\<open>aggregate_costs\<close> returns has
  \<^verbatim>\<open>started_at\<close> equal to the timestamp of the first element, \<^verbatim>\<open>completed_at\<close> equal to the
  timestamp of the last element and \<^verbatim>\<open>model\<close> equal to the model of the first element, in
  the order in which the list was given. Nothing is sorted and no model is compared with
  another: whatever timestamps and models the entries carry instead, the aggregation returns
  the same result, with the three fields read from the same positions.
\<close>

theorem aggregate_costs_first_last:
  assumes "es \<noteq> []" and "aggregate_costs rt es rid = Inr r"
  shows "started_at r = timestamp (es ! 0) \<and>
         completed_at r = timestamp (es ! (length es - 1)) \<and>
         run_model r = model (es ! 0) \<and>
         aggregate_costs rt (map (\<lambda>e. e\<lparr>model := m e, timestamp := t e\<rparr>) es) rid =
           Inr (r\<lparr>entries := map (\<lambda>e. e\<lparr>model := m e, timestamp := t e\<rparr>) es,
                  run_model := m (es ! 0),
                  started_at := t (es ! 0),
                  completed_at := t (es ! (length es - 1))\<rparr>)"
proof -
  have "aggregate_costs rt (map (\<lambda>e. e\<lparr>model := m e, timestamp := t e\<rparr>) es) rid =
           Inr (r\<lparr>entries := map (\<lambda>e. e\<lparr>model := m e, timestamp := t e\<rparr>) es,
                  run_model := m (hd es),
                  started_at := t (hd es),
                  completed_at := t (last es)\<rparr>)"
    using assms
    by (auto simp: aggregate_costs_def Let_def comp_def hd_map last_map split: sum.splits)
  with assms(1) aggregate_costs_fields(11-13) [OF assms(2)] show ?thesis
    by (simp add: hd_conv_nth last_conv_nth)
qed

text \<open>
  C5 at the sample entries: the first entry carries the latest timestamp and the models
  differ. Relabelling every model and every timestamp only relabels the three fields.
\<close>

theorem aggregate_costs_first_last_witness:
  "sample_entries \<noteq> [] \<and>
   aggregate_costs cpython_312 sample_entries ''run-1'' = Inr sample_run \<and>
   started_at sample_run = ''2024-12-02T09:00:00'' \<and>
   completed_at sample_run = ''2024-12-01T12:00:00'' \<and>
   run_model sample_run = ''gpt-4o'' \<and>
   aggregate_costs cpython_312
     (map (\<lambda>e. e\<lparr>model := ''x-'' @ model e, timestamp := timestamp e @ ''Z''\<rparr>) sample_entries)
     ''run-1'' =
     Inr (sample_run
           \<lparr>entries :=
              map (\<lambda>e. e\<lparr>model := ''x-'' @ model e, timestamp := timestamp e @ ''Z''\<rparr>)
                sample_entries,
            run_model := ''x-gpt-4o'',
            started_at := ''2024-12-02T09:00:00Z'',
            completed_at := ''2024-12-01T12:00:00Z''\<rparr>)"
proof -
  have ne: "sample_entries \<noteq> []" by simp
  from aggregate_costs_first_last [OF ne sample_run_aggregate,
      where m = "\<lambda>e. ''x-'' @ model e" and t = "\<lambda>e. timestamp e @ ''Z''"]
    ne sample_run_aggregate
  show ?thesis by simp
qed

lemma aggregate_costs_at_heap: "snd (aggregate_costs_at rt a rid h) = h"
  by (simp add: aggregate_costs_at_def Let_def split: sum.splits)

lemma aggregate_costs_at_value:
  "map_sum id (by_value h) (fst (aggregate_costs_at rt a rid h)) =
     aggregate_costs rt (entries_of h a) rid"
  by (simp add: aggregate_costs_at_def aggregate_costs_def entries_of_def by_value_def Let_def
      comp_def hd_map last_map split: sum.splits)

lemma aggregate_costs_at_reference:
  assumes "fst (aggregate_costs_at rt a rid h) = Inr r"
  shows "entries r = a"
  using assms
  by (auto simp: aggregate_costs_at_def Let_def split: if_splits sum.splits)

text \<open>
  C9. \<^verbatim>\<open>aggregate_costs\<close> leaves the heap as it found it, whether it returns or raises: the
  list object of the caller holds the same references and every entry object the same
  fields, so no entry is mutated, added or removed. The \<^verbatim>\<open>entries\<close> field of the \<^verbatim>\<open>RunCosts\<close> it
  returns is the reference it was given, so the entries of the result are the given
  sequence, element for element in the same order; and the result, read by value, is what
  the aggregation of the list's value gives.
\<close>

theorem aggregate_costs_entries_unchanged:
  assumes "aggregate_costs_at rt a rid h = (res, h')"
  shows "h' = h \<and>
         map_sum id (by_value h') res = aggregate_costs rt (entries_of h a) rid \<and>
         (\<forall>r. res = Inr r \<longrightarrow> entries r = a \<and> entries (by_value h' r) = entries_of h a)"
proof -
  have h: "h' = h" using aggregate_costs_at_heap [of rt a rid h] assms by simp
  have v: "map_sum id (by_value h') res = aggregate_costs rt (entries_of h a) rid"
    using aggregate_costs_at_value [of h rt a rid] assms h by simp
  have "entries r = a" if "res = Inr r" for r
    using aggregate_costs_at_reference [of rt a rid h r] assms that by simp
  with h v show ?thesis by (simp add: by_value_def)
qed

text \<open>
  C9 on the sample heap: the call on the list at address 0 returns the sample run with the
  reference 0 as its entries, the call on the empty list at address 5 raises, and both leave
  the heap as it was.
\<close>

theorem aggregate_costs_entries_unchanged_witness:
  "aggregate_costs_at cpython_312 0 ''run-1'' sample_heap =
     (Inr \<lparr>run_id = ''run-1'', entries = 0,
           total_input_tokens = 31, total_output_tokens = 13, run_total_tokens = 44,
           run_total_cost = Finite (2097153 / 1048576), total_latency_ms = 400,
           avg_latency_ms = Finite (4691249611844267 / 35184372088832),
           cost_per_question = Finite (699051 / 1048576),
           run_model = ''gpt-4o'', started_at = ''2024-12-02T09:00:00'',
           completed_at = ''2024-12-01T12:00:00''\<rparr>,
      sample_heap) \<and>
   entries_of sample_heap 0 = sample_entries \<and>
   aggregate_costs cpython_312 (entries_of sample_heap 0) ''run-1'' = Inr sample_run \<and>
   aggregate_costs_at cpython_312 5 ''run-1'' sample_heap = (Inl ValueError, sample_heap)"
proof -
  have es: "entries_of sample_heap 0 = sample_entries"
    by (simp add: entries_of_def sample_heap_def)
  obtain res h' where c: "aggregate_costs_at cpython_312 0 ''run-1'' sample_heap = (res, h')"
    by (cases "aggregate_costs_at cpython_312 0 ''run-1'' sample_heap")
  from aggregate_costs_entries_unchanged [OF c]
  have h: "h' = sample_heap"
    and v: "map_sum id (by_value h') res = Inr sample_run"
    and r: "\<forall>r. res = Inr r \<longrightarrow> entries r = 0 \<and> entries (by_value h' r) = entries_of sample_heap 0"
    by (auto simp: es sample_run_aggregate)
  from v obtain r where res: "res = Inr r" and bv: "by_value h' r = sample_run"
    by (cases res) auto
  from r res have e: "entries r = 0" by simp
  have "r = \<lparr>run_id = ''run-1'', entries = 0,
           total_input_tokens = 31, total_output_tokens = 13, run_total_tokens = 44,
           run_total_cost = Finite (2097153 / 1048576), total_latency_ms = 400,
           avg_latency_ms = Finite (4691249611844267 / 35184372088832),
           cost_per_question = Finite (699051 / 1048576),
           run_model = ''gpt-4o'', started_at = ''2024-12-02T09:00:00'',
           completed_at = ''2024-12-01T12:00:00''\<rparr>"
    using bv e by (cases r) (simp add: by_value_def)
  moreover have "aggregate_costs_at cpython_312 5 ''run-1'' sample_heap = (Inl ValueError, sample_heap)"
    by (simp add: aggregate_costs_at_def sample_heap_def)
  ultimately show ?thesis using c res h es sample_run_aggregate by simp
qed

text \<open>
  C10. Every \<^verbatim>\<open>RunCosts\<close> that \<^verbatim>\<open>aggregate_costs\<close> produces satisfies
  \<^verbatim>\<open>total_tokens == total_input_tokens + total_output_tokens\<close>. The \<^verbatim>\<open>total_tokens\<close> fields
  of the entries are never read: replacing them by any other values changes nothing in the
  result but the entries it carries.
\<close>

theorem aggregate_costs_total_tokens:
  assumes "aggregate_costs rt es rid = Inr r"
  shows "run_total_tokens r = total_input_tokens r + total_output_tokens r \<and>
         aggregate_costs rt (map (\<lambda>e. e\<lparr>total_tokens := f e\<rparr>) es) rid =
           Inr (r\<lparr>entries := map (\<lambda>e. e\<lparr>total_tokens := f e\<rparr>) es\<rparr>)"
proof
  show "run_total_tokens r = total_input_tokens r + total_output_tokens r"
    using aggregate_costs_fields(4-6) [OF assms] by simp
  have ne: "es \<noteq> []" by (rule aggregate_costs_fields(1) [OF assms])
  show "aggregate_costs rt (map (\<lambda>e. e\<lparr>total_tokens := f e\<rparr>) es) rid =
           Inr (r\<lparr>entries := map (\<lambda>e. e\<lparr>total_tokens := f e\<rparr>) es\<rparr>)"
    using assms ne
    by (auto simp: aggregate_costs_def Let_def comp_def hd_map last_map split: sum.splits)
qed

text \<open>
  C10 at the sample entries, the first of which has a \<^verbatim>\<open>total_tokens\<close> field that disagrees
  with its token counts.
\<close>

theorem aggregate_costs_total_tokens_witness:
  "aggregate_costs cpython_312 sample_entries ''run-1'' = Inr sample_run \<and>
   total_tokens sample_first \<noteq> input_tokens sample_first + output_tokens sample_first \<and>
   run_total_tokens sample_run = total_input_tokens sample_run + total_output_tokens sample_run \<and>
   aggregate_costs cpython_312
     (map (\<lambda>e. e\<lparr>total_tokens := 0\<rparr>) sample_entries) ''run-1'' =
     Inr (sample_run\<lparr>entries := map (\<lambda>e. e\<lparr>total_tokens := 0\<rparr>) sample_entries\<rparr>)"
  using aggregate_costs_total_tokens [OF sample_run_aggregate, of "\<lambda>e. 0"] sample_run_aggregate
  by simp

section \<open>Pricing one call\<close>

lemma pricing_get_unknown:
  assumes "mdl \<notin> fst ` set PRICING"
  shows "pricing_get mdl = \<lparr>price_input = Finite 0, price_output = Finite 0\<rparr>"
  using assms by (simp add: pricing_get_def map_of_eq_None_iff [THEN iffD2])

lemma int_truediv_million:
  assumes "\<bar>real_of_int n\<bar> / 1000000 < 2 ^ 1024 - 2 ^ 970"
  shows "int_truediv n 1000000 = Inr (Finite (rnd (of_int n / 1000000)))"
  using assms by (simp add: int_truediv_def overflows_iff)

lemma within_tolerance_refl:
  assumes "0 \<le> tol"
  shows "within_tolerance (Finite a) (Finite a) tol"
  using assms by (simp add: within_tolerance_def float_sub_def to_double_zero)

text \<open>
  C6 (as amended). For every model identifier that is not in the pricing table and all token
  counts whose millionth is below the float overflow threshold \<open>2 ^ 1024 - 2 ^ 970\<close> in
  magnitude, \<^verbatim>\<open>calculate_cost\<close> returns, without raising, an entry whose \<^verbatim>\<open>input_cost\<close>,
  \<^verbatim>\<open>output_cost\<close> and \<^verbatim>\<open>total_cost\<close> are zero.
\<close>

theorem calculate_cost_unknown_model:
  assumes "mdl \<notin> fst ` set PRICING"
    and "\<bar>real_of_int inp\<bar> / 1000000 < 2 ^ 1024 - 2 ^ 970"
    and "\<bar>real_of_int outp\<bar> / 1000000 < 2 ^ 1024 - 2 ^ 970"
  shows "\<exists>e. calculate_cost now mdl inp outp lat = Inr e \<and>
           input_cost e = Finite 0 \<and> output_cost e = Finite 0 \<and> total_cost e = Finite 0"
  using int_truediv_million [OF assms(2)] int_truediv_million [OF assms(3)]
  by (simp add: calculate_cost_def Let_def pricing_get_unknown [OF assms(1)] to_double_zero)

text \<open>
  C6 at the call of the spec, \<^verbatim>\<open>price_call("unknown-model-xyz", 1000, 1000)\<close>.
\<close>

theorem calculate_cost_unknown_model_witness:
  "''unknown-model-xyz'' \<notin> fst ` set PRICING \<and>
   \<bar>real_of_int 1000\<bar> / 1000000 < 2 ^ 1024 - 2 ^ 970 \<and>
   (\<exists>e. calculate_cost ''2024-12-01T08:00:00'' ''unknown-model-xyz'' 1000 1000 0 = Inr e \<and>
        input_cost e = Finite 0 \<and> output_cost e = Finite 0 \<and> total_cost e = Finite 0)"
proof -
  have h1: "''unknown-model-xyz'' \<notin> fst ` set PRICING" by (simp add: PRICING_def)
  have h2: "\<bar>real_of_int 1000\<bar> / 1000000 < 2 ^ 1024 - 2 ^ 970" by simp
  from calculate_cost_unknown_model [OF h1 h2 h2] h1 h2 show ?thesis by blast
qed

text \<open>
  C6 as stated fails: for the unknown model and an input token count of
  \<open>2 ^ 1024 * 1000000\<close>, \<^verbatim>\<open>input_tokens / 1_000_000\<close> raises \<^verbatim>\<open>OverflowError\<close>.
\<close>

theorem calculate_cost_unknown_model_counterexample:
  "''unknown-model-xyz'' \<notin> fst ` set PRICING \<and>
   calculate_cost ''2024-12-01T08:00:00'' ''unknown-model-xyz'' (2 ^ 1024 * 1000000) 1000 0 =
     Inl OverflowError"
  by (simp add: PRICING_def calculate_cost_def int_truediv_def overflows_iff)

subsection \<open>Finite costs\<close>

lemma rnd_abs_le:
  assumes "\<bar>q\<bar> < 2 ^ 1024"
  shows "\<bar>rnd q\<bar> \<le> \<bar>q\<bar> + 2 ^ 970"
proof (cases "q = 0")
  case True
  then show ?thesis by (simp add: rnd_def)
next
  case False
  from quantum_le [OF False assms] have "quantum q / 2 \<le> 2 ^ 970" by simp
  with rnd_near [of q] show ?thesis by linarith
qed

lemma pricing_get_cases:
  "(case price_input (pricing_get mdl) of Finite p_in \<Rightarrow> \<bar>p_in\<bar> \<le> 75 | _ \<Rightarrow> False) \<and>
   (case price_output (pricing_get mdl) of Finite p_out \<Rightarrow> \<bar>p_out\<bar> \<le> 75 | _ \<Rightarrow> False)"
  by (simp add: pricing_get_def PRICING_def float_eval)

lemma pricing_get_bounded:
  "\<exists>p_in p_out. pricing_get mdl = \<lparr>price_input = Finite p_in, price_output = Finite p_out\<rparr> \<and>
     \<bar>p_in\<bar> \<le> 75 \<and> \<bar>p_out\<bar> \<le> 75"
  using pricing_get_cases [of mdl]
  by (cases "pricing_get mdl") (auto split: pyfloat.splits)

lemma int_truediv_million_bounded:
  assumes "\<bar>n\<bar> < 2 ^ 1000"
  shows "\<exists>a. int_truediv n 1000000 = Inr (Finite a) \<and> \<bar>a\<bar> \<le> 2 ^ 1001"
proof -
  have n: "\<bar>real_of_int n\<bar> < 2 ^ 1000"
    using assms by (metis of_int_abs of_int_less_iff of_int_numeral of_int_power)
  then have q: "\<bar>real_of_int n / 1000000\<bar> < 2 ^ 1000" by simp
  then have "\<bar>real_of_int n\<bar> / 1000000 < 2 ^ 1024 - 2 ^ 970" by simp
  from int_truediv_million [OF this]
  have "int_truediv n 1000000 = Inr (Finite (rnd (real_of_int n / 1000000)))" .
  moreover have "\<bar>rnd (real_of_int n / 1000000)\<bar> \<le> 2 ^ 1001"
    using rnd_abs_le [of "real_of_int n / 1000000"] q by simp
  ultimately show ?thesis by blast
qed

lemma float_mul_bounded:
  assumes "\<bar>a\<bar> \<le> 2 ^ 1001" "\<bar>p\<bar> \<le> 75"
  shows "\<exists>c. float_mul (Finite a) (Finite p) = Finite c \<and> \<bar>c\<bar> \<le> 2 ^ 1009"
proof -
  have "\<bar>a * p\<bar> \<le> 2 ^ 1001 * 75"
    unfolding abs_mult using assms by (intro mult_mono) simp_all
  then have ap: "\<bar>a * p\<bar> \<le> 2 ^ 1008" by simp
  then have "\<not> overflows (a * p)" by (simp add: overflows_iff)
  then have "float_mul (Finite a) (Finite p) = Finite (rnd (a * p))" by (simp add: to_double_def)
  moreover have "\<bar>rnd (a * p)\<bar> \<le> 2 ^ 1009" using rnd_abs_le [of "a * p"] ap by simp
  ultimately show ?thesis by blast
qed

lemma float_add_bounded:
  assumes "\<bar>a\<bar> \<le> 2 ^ 1009" "\<bar>b\<bar> \<le> 2 ^ 1009"
  shows "is_finite (float_add (Finite a) (Finite b))"
proof -
  have "\<bar>a + b\<bar> \<le> 2 ^ 1010" using assms by simp
  then have "\<not> overflows (a + b)" by (simp add: overflows_iff)
  then show ?thesis by (simp add: to_double_def)
qed

lemma calculate_cost_finite:
  assumes "\<bar>inp\<bar> < 2 ^ 1000" "\<bar>outp\<bar> < 2 ^ 1000"
  shows "\<exists>e. calculate_cost now mdl inp outp lat = Inr e \<and> is_finite (total_cost e)"
proof -
  obtain p_in p_out where p: "pricing_get mdl = \<lparr>price_input = Finite p_in, price_output = Finite p_out\<rparr>"
    "\<bar>p_in\<bar> \<le> 75" "\<bar>p_out\<bar> \<le> 75"
    using pricing_get_bounded by blast
  obtain a where a: "int_truediv inp 1000000 = Inr (Finite a)" "\<bar>a\<bar> \<le> 2 ^ 1001"
    using int_truediv_million_bounded [OF assms(1)] by blast
  obtain b where b: "int_truediv outp 1000000 = Inr (Finite b)" "\<bar>b\<bar> \<le> 2 ^ 1001"
    using int_truediv_million_bounded [OF assms(2)] by blast
  obtain c where c: "float_mul (Finite a) (Finite p_in) = Finite c" "\<bar>c\<bar> \<le> 2 ^ 1009"
    using float_mul_bounded [OF a(2) p(2)] by blast
  obtain d where d: "float_mul (Finite b) (Finite p_out) = Finite d" "\<bar>d\<bar> \<le> 2 ^ 1009"
    using float_mul_bounded [OF b(2) p(3)] by blast
  show ?thesis
    using float_add_bounded [OF c(2) d(2)]
    by (simp add: calculate_cost_def Let_def p(1) a(1) b(1) c(1) d(1) del: float_mul.simps float_add.simps)
qed

text \<open>
  C3 (as amended). Every entry that \<^verbatim>\<open>calculate_cost\<close> produces carries the token counts it
  was given, satisfies \<^verbatim>\<open>total_tokens == input_tokens + output_tokens\<close> exactly, and has as
  \<^verbatim>\<open>total_cost\<close> the float sum \<^verbatim>\<open>input_cost + output_cost\<close>; whenever that total is finite,
  as it is for all token counts below \<open>2 ^ 1000\<close> in magnitude, it is within \<open>1e-9\<close> of the
  sum.
\<close>

theorem calculate_cost_invariant:
  assumes "calculate_cost now mdl inp outp lat = Inr e"
  shows "input_tokens e = inp \<and> output_tokens e = outp \<and>
         total_tokens e = input_tokens e + output_tokens e \<and>
         total_cost e = float_add (input_cost e) (output_cost e) \<and>
         (is_finite (total_cost e) \<longrightarrow>
            within_tolerance (total_cost e) (float_add (input_cost e) (output_cost e)) (1 / 10 ^ 9)) \<and>
         (\<bar>inp\<bar> < 2 ^ 1000 \<and> \<bar>outp\<bar> < 2 ^ 1000 \<longrightarrow> is_finite (total_cost e))"
proof -
  from assms have e: "input_tokens e = inp" "output_tokens e = outp"
    "total_tokens e = inp + outp" "total_cost e = float_add (input_cost e) (output_cost e)"
    by (auto simp: calculate_cost_def Let_def split: sum.splits)
  have "within_tolerance x x (1 / 10 ^ 9)" if "is_finite x" for x
    using that by (cases x) (simp_all add: within_tolerance_refl)
  moreover have "is_finite (total_cost e)" if "\<bar>inp\<bar> < 2 ^ 1000 \<and> \<bar>outp\<bar> < 2 ^ 1000"
    using calculate_cost_finite [of inp outp now mdl lat] that assms by auto
  ultimately show ?thesis using e by simp
qed

lemma gpt4o_prices:
  "pricing_get ''gpt-4o'' = \<lparr>price_input = Finite (5 / 2), price_output = Finite 10\<rparr>"
  by (simp add: pricing_get_def PRICING_def float_eval)

text \<open>
  C3 at a call for \<^verbatim>\<open>gpt-4o\<close> with 500000 input and 250000 output tokens.
\<close>

theorem calculate_cost_invariant_witness:
  "calculate_cost ''2024-12-01T08:00:00'' ''gpt-4o'' 500000 250000 120 =
     Inr \<lparr>model = ''gpt-4o'', input_tokens = 500000, output_tokens = 250000,
          total_tokens = 750000, input_cost = Finite (5 / 4), output_cost = Finite (5 / 2),
          total_cost = Finite (15 / 4), latency_ms = 120,
          timestamp = ''2024-12-01T08:00:00''\<rparr> \<and>
   \<bar>500000 :: int\<bar> < 2 ^ 1000 \<and> \<bar>250000 :: int\<bar> < 2 ^ 1000 \<and>
   (750000 :: int) = 500000 + 250000 \<and>
   Finite (15 / 4) = float_add (Finite (5 / 4)) (Finite (5 / 2)) \<and>
   is_finite (Finite (15 / 4)) \<and>
   within_tolerance (Finite (15 / 4)) (float_add (Finite (5 / 4)) (Finite (5 / 2))) (1 / 10 ^ 9)"
proof -
  have run: "calculate_cost ''2024-12-01T08:00:00'' ''gpt-4o'' 500000 250000 120 =
     Inr \<lparr>model = ''gpt-4o'', input_tokens = 500000, output_tokens = 250000,
          total_tokens = 750000, input_cost = Finite (5 / 4), output_cost = Finite (5 / 2),
          total_cost = Finite (15 / 4), latency_ms = 120,
          timestamp = ''2024-12-01T08:00:00''\<rparr>"
    by (simp add: calculate_cost_def gpt4o_prices int_truediv_def float_eval)
  from calculate_cost_invariant [OF run] run show ?thesis by (simp add: float_eval)
qed

subsection \<open>Overflowing costs\<close>

lemma int_truediv_exact:
  assumes "b \<noteq> 0" and "real_of_int a / real_of_int b = of_int m * 2 powi k"
    and "\<bar>m\<bar> < 2 ^ 53" and "- 1074 \<le> k"
    and "\<bar>real_of_int a / real_of_int b\<bar> < 2 ^ 1024 - 2 ^ 970"
  shows "int_truediv a b = Inr (Finite (real_of_int a / real_of_int b))"
  using assms(1,5) rnd_exact [OF assms(2-4)] by (simp add: int_truediv_def overflows_iff)

lemma float_mul_overflow:
  assumes "2 ^ 1024 \<le> \<bar>a * b\<bar>"
  shows "float_mul (Finite a) (Finite b) = (if 0 < a * b then PInf else NInf)"
  using assms by (simp add: to_double_def overflows_iff)

lemma opus_prices:
  "pricing_get ''claude-3-opus-20240229'' = \<lparr>price_input = Finite 15, price_output = Finite 75\<rparr>"
  by (simp add: pricing_get_def PRICING_def float_eval)

text \<open>
  C3 as stated fails: with \<open>2 ^ 1021\<close> million input tokens and as many output tokens
  counted negative, at the prices of \<^verbatim>\<open>claude-3-opus-20240229\<close>, the input cost overflows to
  \<open>+inf\<close>, the output cost to \<open>-inf\<close>, and the total cost is NaN, which is within no
  tolerance of anything.
\<close>

theorem calculate_cost_invariant_counterexample:
  "calculate_cost ''2024-12-01T08:00:00'' ''claude-3-opus-20240229''
      (2 ^ 1021 * 1000000) (- (2 ^ 1021 * 1000000)) 0 =
     Inr \<lparr>model = ''claude-3-opus-20240229'',
          input_tokens = 2 ^ 1021 * 1000000, output_tokens = - (2 ^ 1021 * 1000000),
          total_tokens = 0, input_cost = PInf, output_cost = NInf, total_cost = NaN,
          latency_ms = 0, timestamp = ''2024-12-01T08:00:00''\<rparr> \<and>
   \<not> within_tolerance NaN (float_add PInf NInf) (1 / 10 ^ 9)"
proof -
  have a: "int_truediv (2 ^ 1021 * 1000000) 1000000 = Inr (Finite (2 ^ 1021))"
    using int_truediv_exact [of 1000000 "2 ^ 1021 * 1000000" 1 1021] by simp
  have b: "int_truediv (- (2 ^ 1021 * 1000000)) 1000000 = Inr (Finite (- (2 ^ 1021)))"
    using int_truediv_exact [of 1000000 "- (2 ^ 1021 * 1000000)" "- 1" 1021] by simp
  have c: "float_mul (Finite (2 ^ 1021)) (Finite 15) = PInf"
    using float_mul_overflow [of "2 ^ 1021" 15] by simp
  have d: "float_mul (Finite (- (2 ^ 1021))) (Finite 75) = NInf"
    using float_mul_overflow [of "- (2 ^ 1021)" 75] by simp
  have "calculate_cost ''2024-12-01T08:00:00'' ''claude-3-opus-20240229''
      (2 ^ 1021 * 1000000) (- (2 ^ 1021 * 1000000)) 0 =
     Inr \<lparr>model = ''claude-3-opus-20240229'',
          input_tokens = 2 ^ 1021 * 1000000, output_tokens = - (2 ^ 1021 * 1000000),
          total_tokens = 2 ^ 1021 * 1000000 + - (2 ^ 1021 * 1000000),
          input_cost = PInf, output_cost = NInf, total_cost = float_add PInf NInf,
          latency_ms = 0, timestamp = ''2024-12-01T08:00:00''\<rparr>"
    unfolding calculate_cost_def Let_def opus_prices a b
    by (simp only: sum.case price.simps c d)
  then show ?thesis by (simp add: within_tolerance_def float_sub_def)
qed

subsection \<open>The call of the spec\<close>

lemma gpt4o_mini_prices:
  "pricing_get ''gpt-4o-mini'' =
     \<lparr>price_input = float_literal (15 / 100), price_output = float_literal (60 / 100)\<rparr>"
  by (simp add: pricing_get_def PRICING_def)

lemma literal_015: "float_literal (15 / 100) = Finite (5404319552844595 / 36028797018963968)"
  by (simp add: float_eval)

lemma literal_060: "float_literal (60 / 100) = Finite (5404319552844595 / 9007199254740992)"
  by (simp add: float_eval)

lemma literal_030: "float_literal (30 / 100) = Finite (5404319552844595 / 18014398509481984)"
  by (simp add: float_eval)

lemma literal_045: "float_literal (45 / 100) = Finite (8106479329266893 / 18014398509481984)"
  by (simp add: float_eval)

lemma gpt4o_mini_call:
  "calculate_cost now ''gpt-4o-mini'' 1000000 500000 250 =
     Inr \<lparr>model = ''gpt-4o-mini'', input_tokens = 1000000, output_tokens = 500000,
          total_tokens = 1500000,
          input_cost = Finite (5404319552844595 / 36028797018963968),
          output_cost = Finite (5404319552844595 / 18014398509481984),
          total_cost = Finite (2026619832316723 / 4503599627370496),
          latency_ms = 250, timestamp = now\<rparr>"
  by (simp add: calculate_cost_def gpt4o_mini_prices literal_015 literal_060 int_truediv_def
      float_eval)

text \<open>
  C8 (as amended). \<^verbatim>\<open>price_call("gpt-4o-mini", 1_000_000, 500_000, latency_ms=250)\<close> returns
  an entry whose \<^verbatim>\<open>input_cost\<close> is the float \<^verbatim>\<open>0.15\<close> and whose \<^verbatim>\<open>output_cost\<close> is the float
  \<^verbatim>\<open>0.30\<close>; its \<^verbatim>\<open>total_cost\<close> is the float sum of the two, \<open>0.44999999999999996\<close>, which is
  within \<open>1e-9\<close> of \<^verbatim>\<open>0.45\<close>.
\<close>

theorem calculate_cost_gpt4o_mini:
  "calculate_cost now ''gpt-4o-mini'' 1000000 500000 250 =
     Inr \<lparr>model = ''gpt-4o-mini'', input_tokens = 1000000, output_tokens = 500000,
          total_tokens = 1500000,
          input_cost = float_literal (15 / 100),
          output_cost = float_literal (30 / 100),
          total_cost = Finite (2026619832316723 / 4503599627370496),
          latency_ms = 250, timestamp = now\<rparr> \<and>
   within_tolerance (Finite (2026619832316723 / 4503599627370496)) (float_literal (45 / 100))
     (1 / 10 ^ 9)"
  by (simp add: gpt4o_mini_call literal_015 literal_030 literal_045 within_tolerance_def
      float_sub_def float_eval)

text \<open>
  C8 as stated fails: the \<^verbatim>\<open>total_cost\<close> of that call is not the float \<^verbatim>\<open>0.45\<close>; the sum of
  the floats \<^verbatim>\<open>0.15\<close> and \<^verbatim>\<open>0.30\<close> lies halfway between two doubles and rounds to the one
  below \<^verbatim>\<open>0.45\<close>.
\<close>

theorem calculate_cost_gpt4o_mini_counterexample:
  "calculate_cost ''2024-12-01T08:00:00'' ''gpt-4o-mini'' 1000000 500000 250 =
     Inr \<lparr>model = ''gpt-4o-mini'', input_tokens = 1000000, output_tokens = 500000,
          total_tokens = 1500000,
          input_cost = float_literal (15 / 100),
          output_cost = float_literal (30 / 100),
          total_cost = Finite (2026619832316723 / 4503599627370496),
          latency_ms = 250, timestamp = ''2024-12-01T08:00:00''\<rparr> \<and>
   Finite (2026619832316723 / 4503599627370496) \<noteq> float_literal (45 / 100)"
  by (simp add: gpt4o_mini_call float_eval)

section \<open>Persistence\<close>

lemma py_round_nearest:
  "\<exists>k. \<bar>real_of_int k - q * 10 ^ n\<bar> \<le> 1 / 2 \<and>
       py_round (Finite q) n = to_double (real_of_int k / 10 ^ n)"
  using round_half_even_near [of "q * 10 ^ n"] by auto

lemma sample_rounded:
  "py_round (Finite (2097153 / 1048576)) 4 = Finite 2"
  "py_round (Finite (4691249611844267 / 35184372088832)) 2 =
     Finite (4691132330603971 / 35184372088832)"
  "py_round (Finite (699051 / 1048576)) 6 = Finite (6004802505560413 / 9007199254740992)"
  by (simp_all add: float_eval)

text \<open>The ints of the document are the four integer totals and four ints of every entry.\<close>

lemma encodable_save_costs_data:
  "encodable limit (save_costs_data costs) \<longleftrightarrow>
     limit = 0 \<or>
     \<bar>total_input_tokens costs\<bar> < 10 ^ limit \<and> \<bar>total_output_tokens costs\<bar> < 10 ^ limit \<and>
     \<bar>run_total_tokens costs\<bar> < 10 ^ limit \<and> \<bar>total_latency_ms costs\<bar> < 10 ^ limit \<and>
     (\<forall>e \<in> set (entries costs).
        \<bar>input_tokens e\<bar> < 10 ^ limit \<and> \<bar>output_tokens e\<bar> < 10 ^ limit \<and>
        \<bar>total_tokens e\<bar> < 10 ^ limit \<and> \<bar>latency_ms e\<bar> < 10 ^ limit)"
  by (auto simp: save_costs_data_def asdict_def list_all_iff)

lemma entry_of_json_asdict: "entry_of_json (asdict e) = Inr e"
  by (simp add: entry_of_json_def asdict_def and_then_def field_def)

lemma entries_of_json_asdict: "entries_of_json (map asdict es) = Inr es"
  by (induction es) (simp_all add: entry_of_json_asdict and_then_def)

lemma save_costs_written:
  assumes "writable fs path" and "encodable (max_str_digits rt) (save_costs_data costs)"
  shows "save_costs rt costs path fs =
           (Inr (), fs\<lparr>files := (files fs)(path \<mapsto> Document (save_costs_data costs))\<rparr>)"
  using assms by (simp add: save_costs_def)

lemma load_costs_document:
  assumes "files fs path = Some (Document (save_costs_data costs))"
    and "encodable (max_str_digits rt) (save_costs_data costs)"
  shows "load_costs rt path fs =
    Inr (costs\<lparr>run_total_cost := py_round (run_total_cost costs) 4,
               avg_latency_ms := py_round (avg_latency_ms costs) 2,
               cost_per_question := py_round (cost_per_question costs) 6\<rparr>)"
  using assms(2)
  by (simp add: load_costs_def assms(1))
     (simp add: save_costs_data_def and_then_def field_def entries_of_json_asdict)

lemma max_str_digits_default:
  "max_str_digits cpython_311 = 4300" "max_str_digits cpython_312 = 4300"
  by (simp_all add: cpython_311_def cpython_312_def)

lemma sample_run_encodable:
  assumes "9 \<le> limit"
  shows "encodable limit (save_costs_data sample_run)"
proof -
  have "(10 :: int) ^ 9 \<le> 10 ^ limit" using assms by (intro power_increasing) simp_all
  then show ?thesis by (auto simp: encodable_save_costs_data)
qed

lemma run_of_size_not_encodable:
  assumes "0 < limit" and "10 ^ limit \<le> \<bar>n\<bar>"
  shows "\<not> encodable limit (save_costs_data (run_of_size n))"
  using assms by (simp add: encodable_save_costs_data)

lemma run_of_size_aggregate:
  "aggregate_costs cpython_312 [entry_of_size n] ''run-1'' = Inr (run_of_size n)"
  by (simp add: aggregate_costs_returns overflows_iff sum_eval float_eval)

lemma save_costs_refused:
  assumes "writable fs path" and "\<not> encodable (max_str_digits rt) (save_costs_data costs)"
  shows "save_costs rt costs path fs =
           (Inl ValueError, fs\<lparr>files := (files fs)(path \<mapsto> Truncated)\<rparr>)"
  using assms by (simp add: save_costs_def)

lemma load_costs_truncated:
  assumes "files fs path = Some Truncated"
  shows "load_costs rt path fs = Inl ValueError"
  using assms by (simp add: load_costs_def)

lemma blank_disk_writable: "writable blank_disk path"
  by (simp add: blank_disk_def)

lemma sample_run_default_encodable:
  "encodable (max_str_digits cpython_312) (save_costs_data sample_run)"
  unfolding max_str_digits_default by (rule sample_run_encodable) simp

lemma big_run_not_encodable:
  "\<not> encodable (max_str_digits cpython_312) (save_costs_data big_run)"
  unfolding max_str_digits_default
proof (rule run_of_size_not_encodable)
  show "(0 :: nat) < 4300" by simp
  show "(10 :: int) ^ 4300 \<le> \<bar>10 ^ 4300\<bar>" by (rule abs_ge_self)
qed

lemma big_run_aggregate:
  "aggregate_costs cpython_312 [big_entry] ''run-1'' = Inr big_run"
  by (rule run_of_size_aggregate)

lemma big_run_refused:
  "save_costs cpython_312 big_run ''costs.json'' blank_disk =
     (Inl ValueError, blank_disk\<lparr>files := (files blank_disk)(''costs.json'' \<mapsto> Truncated)\<rparr>)"
  by (rule save_costs_refused [OF blank_disk_writable big_run_not_encodable])

lemma truncated_unreadable:
  "load_costs cpython_312 ''costs.json''
     (blank_disk\<lparr>files := (files blank_disk)(''costs.json'' \<mapsto> Truncated)\<rparr>) = Inl ValueError"
  by (rule load_costs_truncated) simp

text \<open>
  C7 (as amended). On a path that can be opened for writing, \<^verbatim>\<open>save_costs\<close> writes the durable
  form of a \<^verbatim>\<open>RunCosts\<close> when none of the ints of the document (the four integer totals, and
  the three token counts and the latency of every entry) has more decimal digits than the
  int-to-str limit of the interpreter (4300 by default; 0 stands for no limit). The JSON
  object written has exactly the sections \<^verbatim>\<open>run_id\<close>, \<^verbatim>\<open>model\<close>, \<^verbatim>\<open>totals\<close>, \<^verbatim>\<open>averages\<close>,
  \<^verbatim>\<open>timing\<close> and \<^verbatim>\<open>entries\<close>, in this order. \<^verbatim>\<open>total_cost_usd\<close> is the total cost rounded to 4
  decimals, \<^verbatim>\<open>averages.latency_ms\<close> the average latency rounded to 2 decimals and
  \<^verbatim>\<open>averages.cost_per_question_usd\<close> the cost per question rounded to 6 decimals, where
  rounding a finite float to \<open>n\<close> decimals yields the double nearest to \<open>k / 10 ^ n\<close> for an
  integer \<open>k\<close> within one half of the float scaled by \<open>10 ^ n\<close>. The entries list carries every
  field of every entry as it is, unrounded. When an int of the document is longer than the
  limit, \<^verbatim>\<open>save_costs\<close> raises \<^verbatim>\<open>ValueError\<close> and leaves the beginning of a document in the file.
\<close>

theorem save_costs_durable_form:
  assumes "writable fs path"
  shows "(if encodable (max_str_digits rt) (save_costs_data costs)
          then \<exists>fs' totals averages timing.
             save_costs rt costs path fs = (Inr (), fs') \<and>
             files fs' path =
               Some (Document (JObject
                 [(''run_id'', JString (run_id costs)),
                  (''model'', JString (run_model costs)),
                  (''totals'', JObject totals),
                  (''averages'', JObject averages),
                  (''timing'', JObject timing),
                  (''entries'', JArray (map asdict (entries costs)))])) \<and>
             totals =
               [(''input_tokens'', JInt (total_input_tokens costs)),
                (''output_tokens'', JInt (total_output_tokens costs)),
                (''total_tokens'', JInt (run_total_tokens costs)),
                (''total_cost_usd'', JFloat (py_round (run_total_cost costs) 4)),
                (''total_latency_ms'', JInt (total_latency_ms costs))] \<and>
             averages =
               [(''latency_ms'', JFloat (py_round (avg_latency_ms costs) 2)),
                (''cost_per_question_usd'', JFloat (py_round (cost_per_question costs) 6))] \<and>
             timing =
               [(''started_at'', JString (started_at costs)),
                (''completed_at'', JString (completed_at costs))] \<and>
             (\<forall>e \<in> set (entries costs).
                asdict e =
                  JObject
                   [(''model'', JString (model e)),
                    (''input_tokens'', JInt (input_tokens e)),
                    (''output_tokens'', JInt (output_tokens e)),
                    (''total_tokens'', JInt (total_tokens e)),
                    (''input_cost'', JFloat (input_cost e)),
                    (''output_cost'', JFloat (output_cost e)),
                    (''total_cost'', JFloat (total_cost e)),
                    (''latency_ms'', JInt (latency_ms e)),
                    (''timestamp'', JString (timestamp e))]) \<and>
             (\<forall>q n. \<exists>k. \<bar>real_of_int k - q * 10 ^ n\<bar> \<le> 1 / 2 \<and>
                  py_round (Finite q) n = to_double (real_of_int k / 10 ^ n))
          else save_costs rt costs path fs =
                 (Inl ValueError, fs\<lparr>files := (files fs)(path \<mapsto> Truncated)\<rparr>)) \<and>
         (encodable (max_str_digits rt) (save_costs_data costs) \<longleftrightarrow>
            max_str_digits rt = 0 \<or>
            \<bar>total_input_tokens costs\<bar> < 10 ^ max_str_digits rt \<and>
            \<bar>total_output_tokens costs\<bar> < 10 ^ max_str_digits rt \<and>
            \<bar>run_total_tokens costs\<bar> < 10 ^ max_str_digits rt \<and>
            \<bar>total_latency_ms costs\<bar> < 10 ^ max_str_digits rt \<and>
            (\<forall>e \<in> set (entries costs).
               \<bar>input_tokens e\<bar> < 10 ^ max_str_digits rt \<and>
               \<bar>output_tokens e\<bar> < 10 ^ max_str_digits rt \<and>
               \<bar>total_tokens e\<bar> < 10 ^ max_str_digits rt \<and>
               \<bar>latency_ms e\<bar> < 10 ^ max_str_digits rt))"
proof (intro conjI)
  show "encodable (max_str_digits rt) (save_costs_data costs) \<longleftrightarrow>
            max_str_digits rt = 0 \<or>
            \<bar>total_input_tokens costs\<bar> < 10 ^ max_str_digits rt \<and>
            \<bar>total_output_tokens costs\<bar> < 10 ^ max_str_digits rt \<and>
            \<bar>run_total_tokens costs\<bar> < 10 ^ max_str_digits rt \<and>
            \<bar>total_latency_ms costs\<bar> < 10 ^ max_str_digits rt \<and>
            (\<forall>e \<in> set (entries costs).
               \<bar>input_tokens e\<bar> < 10 ^ max_str_digits rt \<and>
               \<bar>output_tokens e\<bar> < 10 ^ max_str_digits rt \<and>
               \<bar>total_tokens e\<bar> < 10 ^ max_str_digits rt \<and>
               \<bar>latency_ms e\<bar> < 10 ^ max_str_digits rt)"
    by (rule encodable_save_costs_data)
next
  show "if encodable (max_str_digits rt) (save_costs_data costs)
        then \<exists>fs' totals averages timing.
             save_costs rt costs path fs = (Inr (), fs') \<and>
             files fs' path =
               Some (Document (JObject
                 [(''run_id'', JString (run_id costs)),
                  (''model'', JString (run_model costs)),
                  (''totals'', JObject totals),
                  (''averages'', JObject averages),
                  (''timing'', JObject timing),
                  (''entries'', JArray (map asdict (entries costs)))])) \<and>
             totals =
               [(''input_tokens'', JInt (total_input_tokens costs)),
                (''output_tokens'', JInt (total_output_tokens costs)),
                (''total_tokens'', JInt (run_total_tokens costs)),
                (''total_cost_usd'', JFloat (py_round (run_total_cost costs) 4)),
                (''total_latency_ms'', JInt (total_latency_ms costs))] \<and>
             averages =
               [(''latency_ms'', JFloat (py_round (avg_latency_ms costs) 2)),
                (''cost_per_question_usd'', JFloat (py_round (cost_per_question costs) 6))] \<and>
             timing =
               [(''started_at'', JString (started_at costs)),
                (''completed_at'', JString (completed_at costs))] \<and>
             (\<forall>e \<in> set (entries costs).
                asdict e =
                  JObject
                   [(''model'', JString (model e)),
                    (''input_tokens'', JInt (input_tokens e)),
                    (''output_tokens'', JInt (output_tokens e)),
                    (''total_tokens'', JInt (total_tokens e)),
                    (''input_cost'', JFloat (input_cost e)),
                    (''output_cost'', JFloat (output_cost e)),
                    (''total_cost'', JFloat (total_cost e)),
                    (''latency_ms'', JInt (latency_ms e)),
                    (''timestamp'', JString (timestamp e))]) \<and>
             (\<forall>q n. \<exists>k. \<bar>real_of_int k - q * 10 ^ n\<bar> \<le> 1 / 2 \<and>
                  py_round (Finite q) n = to_double (real_of_int k / 10 ^ n))
        else save_costs rt costs path fs =
               (Inl ValueError, fs\<lparr>files := (files fs)(path \<mapsto> Truncated)\<rparr>)"
  proof (cases "encodable (max_str_digits rt) (save_costs_data costs)")
    case True
    have "files (fs\<lparr>files := (files fs)(path \<mapsto> Document (save_costs_data costs))\<rparr>) path =
            Some (Document (save_costs_data costs))"
      by simp
    with True save_costs_written [OF assms True] show ?thesis
      using py_round_nearest
      by (simp add: save_costs_data_def asdict_def del: py_round.simps)
  next
    case False
    with save_costs_refused [OF assms False] show ?thesis by simp
  qed
qed

text \<open>
  C7 at the sample run, written to an empty disk by an interpreter with the default limit
  of 4300 digits: the two averages are visibly rounded (133.33 and 0.666667) and the total
  cost 2.0000009536743164 becomes 2.0.
\<close>

theorem save_costs_durable_form_witness:
  "writable blank_disk ''costs.json'' \<and>
   encodable (max_str_digits cpython_312) (save_costs_data sample_run) \<and>
   (\<exists>fs'. save_costs cpython_312 sample_run ''costs.json'' blank_disk = (Inr (), fs') \<and>
      files fs' ''costs.json'' =
        Some (Document (JObject
          [(''run_id'', JString ''run-1''),
           (''model'', JString ''gpt-4o''),
           (''totals'',
              JObject
               [(''input_tokens'', JInt 31),
                (''output_tokens'', JInt 13),
                (''total_tokens'', JInt 44),
                (''total_cost_usd'', JFloat (Finite 2)),
                (''total_latency_ms'', JInt 400)]),
           (''averages'',
              JObject
               [(''latency_ms'', JFloat (Finite (4691132330603971 / 35184372088832))),
                (''cost_per_question_usd'',
                   JFloat (Finite (6004802505560413 / 9007199254740992)))]),
           (''timing'',
              JObject
               [(''started_at'', JString ''2024-12-02T09:00:00''),
                (''completed_at'', JString ''2024-12-01T12:00:00'')]),
           (''entries'', JArray (map asdict sample_entries))])))"
proof -
  note enc = sample_run_default_encodable
  from save_costs_durable_form [OF blank_disk_writable, where rt = cpython_312
      and costs = sample_run and path = "''costs.json''", THEN conjunct1]
  obtain fs' totals averages timing where
    sv: "save_costs cpython_312 sample_run ''costs.json'' blank_disk = (Inr (), fs')"
    and f: "files fs' ''costs.json'' =
         Some (Document (JObject
           [(''run_id'', JString (run_id sample_run)),
            (''model'', JString (run_model sample_run)),
            (''totals'', JObject totals),
            (''averages'', JObject averages),
            (''timing'', JObject timing),
            (''entries'', JArray (map asdict (entries sample_run)))]))"
    and t: "totals =
         [(''input_tokens'', JInt (total_input_tokens sample_run)),
          (''output_tokens'', JInt (total_output_tokens sample_run)),
          (''total_tokens'', JInt (run_total_tokens sample_run)),
          (''total_cost_usd'', JFloat (py_round (run_total_cost sample_run) 4)),
          (''total_latency_ms'', JInt (total_latency_ms sample_run))]"
    and a: "averages =
         [(''latency_ms'', JFloat (py_round (avg_latency_ms sample_run) 2)),
          (''cost_per_question_usd'', JFloat (py_round (cost_per_question sample_run) 6))]"
    and g: "timing =
         [(''started_at'', JString (started_at sample_run)),
          (''completed_at'', JString (completed_at sample_run))]"
    unfolding if_P [OF enc] by blast
  from f t a g have "files fs' ''costs.json'' =
        Some (Document (JObject
          [(''run_id'', JString ''run-1''),
           (''model'', JString ''gpt-4o''),
           (''totals'',
              JObject
               [(''input_tokens'', JInt 31),
                (''output_tokens'', JInt 13),
                (''total_tokens'', JInt 44),
                (''total_cost_usd'', JFloat (Finite 2)),
                (''total_latency_ms'', JInt 400)]),
           (''averages'',
              JObject
               [(''latency_ms'', JFloat (Finite (4691132330603971 / 35184372088832))),
                (''cost_per_question_usd'',
                   JFloat (Finite (6004802505560413 / 9007199254740992)))]),
           (''timing'',
              JObject
               [(''started_at'', JString ''2024-12-02T09:00:00''),
                (''completed_at'', JString ''2024-12-01T12:00:00'')]),
           (''entries'', JArray (map asdict sample_entries))]))"
    by (simp add: sample_rounded del: py_round.simps)
  with sv blank_disk_writable enc show ?thesis by blast
qed

text \<open>
  C7 as stated fails for a \<^verbatim>\<open>RunCosts\<close> with an int of 4301 digits: \<open>big_run\<close> has \<open>10 ^ 4300\<close>
  input tokens, \<^verbatim>\<open>json.dump\<close> raises \<^verbatim>\<open>ValueError\<close> when it converts that int, and the file,
  already opened for writing, is left with the beginning of a document, which is not a JSON
  object with the six sections.
\<close>

theorem save_costs_durable_form_counterexample:
  "writable blank_disk ''costs.json'' \<and>
   save_costs cpython_312 big_run ''costs.json'' blank_disk =
     (Inl ValueError, blank_disk\<lparr>files := (files blank_disk)(''costs.json'' \<mapsto> Truncated)\<rparr>) \<and>
   files (blank_disk\<lparr>files := (files blank_disk)(''costs.json'' \<mapsto> Truncated)\<rparr>) ''costs.json'' =
     Some Truncated"
  by (intro conjI blank_disk_writable big_run_refused) simp

text \<open>
  C4 (as amended). Take a \<^verbatim>\<open>RunCosts\<close> whose durable form can be written: a path that can be
  opened for writing, and no int in the document longer than the int-to-str limit of the
  interpreter. Persisting it and reloading it yields an entries list identical to the
  original, entry for entry in all fields. When the \<^verbatim>\<open>RunCosts\<close> is one that \<^verbatim>\<open>aggregate_costs\<close>
  produced, aggregating the reloaded entries again succeeds, and the reloaded summary is the
  recomputed one up to the rounding of the durable form: the token and latency totals, the
  model and the two timestamps are equal, and the reloaded total cost, average latency and
  cost per question are the recomputed ones rounded to 4, 2 and 6 decimals.
\<close>

theorem save_load_roundtrip:
  assumes "writable fs path"
    and "encodable (max_str_digits rt) (save_costs_data costs)"
  shows "\<exists>fs' loaded.
           save_costs rt costs path fs = (Inr (), fs') \<and>
           load_costs rt path fs' = Inr loaded \<and>
           entries loaded = entries costs \<and>
           (\<forall>es rid. aggregate_costs rt es rid = Inr costs \<longrightarrow>
              (\<exists>again. aggregate_costs rt (entries loaded) (run_id loaded) = Inr again \<and>
                 total_input_tokens loaded = total_input_tokens again \<and>
                 total_output_tokens loaded = total_output_tokens again \<and>
                 run_total_tokens loaded = run_total_tokens again \<and>
                 total_latency_ms loaded = total_latency_ms again \<and>
                 run_total_cost loaded = py_round (run_total_cost again) 4 \<and>
                 avg_latency_ms loaded = py_round (avg_latency_ms again) 2 \<and>
                 cost_per_question loaded = py_round (cost_per_question again) 6 \<and>
                 run_model loaded = run_model again \<and>
                 started_at loaded = started_at again \<and>
                 completed_at loaded = completed_at again))"
proof -
  let ?fs = "fs\<lparr>files := (files fs)(path \<mapsto> Document (save_costs_data costs))\<rparr>"
  let ?loaded = "costs\<lparr>run_total_cost := py_round (run_total_cost costs) 4,
               avg_latency_ms := py_round (avg_latency_ms costs) 2,
               cost_per_question := py_round (cost_per_question costs) 6\<rparr>"
  have s: "save_costs rt costs path fs = (Inr (), ?fs)"
    by (rule save_costs_written [OF assms])
  have "files ?fs path = Some (Document (save_costs_data costs))" by simp
  then have l: "load_costs rt path ?fs = Inr ?loaded"
    by (rule load_costs_document [OF _ assms(2)])
  have "aggregate_costs rt (entries ?loaded) (run_id ?loaded) = Inr costs"
    if "aggregate_costs rt es rid = Inr costs" for es rid
    using that aggregate_costs_fields(2,3) [OF that] by simp
  then show ?thesis using s l by auto
qed

text \<open>
  C4 at the sample run, saved and reloaded by an interpreter with the default limit of 4300
  digits.
\<close>

theorem save_load_roundtrip_witness:
  "writable blank_disk ''costs.json'' \<and>
   encodable (max_str_digits cpython_312) (save_costs_data sample_run) \<and>
   aggregate_costs cpython_312 sample_entries ''run-1'' = Inr sample_run \<and>
   (\<exists>fs'. save_costs cpython_312 sample_run ''costs.json'' blank_disk = (Inr (), fs') \<and>
      load_costs cpython_312 ''costs.json'' fs' = Inr sample_reloaded) \<and>
   entries sample_reloaded = entries sample_run \<and>
   aggregate_costs cpython_312 (entries sample_reloaded) (run_id sample_reloaded) =
     Inr sample_run \<and>
   total_input_tokens sample_reloaded = total_input_tokens sample_run \<and>
   total_output_tokens sample_reloaded = total_output_tokens sample_run \<and>
   run_total_tokens sample_reloaded = run_total_tokens sample_run \<and>
   total_latency_ms sample_reloaded = total_latency_ms sample_run \<and>
   run_total_cost sample_reloaded = py_round (run_total_cost sample_run) 4 \<and>
   avg_latency_ms sample_reloaded = py_round (avg_latency_ms sample_run) 2 \<and>
   cost_per_question sample_reloaded = py_round (cost_per_question sample_run) 6"
proof -
  note enc = sample_run_default_encodable
  from save_load_roundtrip [OF blank_disk_writable enc, of "''costs.json''"]
  obtain fs' loaded where
    sv: "save_costs cpython_312 sample_run ''costs.json'' blank_disk = (Inr (), fs')"
    and l: "load_costs cpython_312 ''costs.json'' fs' = Inr loaded"
    and e: "entries loaded = entries sample_run"
    and r: "\<forall>es rid. aggregate_costs cpython_312 es rid = Inr sample_run \<longrightarrow>
              (\<exists>again. aggregate_costs cpython_312 (entries loaded) (run_id loaded) = Inr again \<and>
                 total_input_tokens loaded = total_input_tokens again \<and>
                 total_output_tokens loaded = total_output_tokens again \<and>
                 run_total_tokens loaded = run_total_tokens again \<and>
                 total_latency_ms loaded = total_latency_ms again \<and>
                 run_total_cost loaded = py_round (run_total_cost again) 4 \<and>
                 avg_latency_ms loaded = py_round (avg_latency_ms again) 2 \<and>
                 cost_per_question loaded = py_round (cost_per_question again) 6 \<and>
                 run_model loaded = run_model again \<and>
                 started_at loaded = started_at again \<and>
                 completed_at loaded = completed_at again)"
    by blast
  from save_costs_written [OF blank_disk_writable enc, of "''costs.json''"] sv
  have fs': "fs' = blank_disk\<lparr>files := (files blank_disk)(''costs.json'' \<mapsto>
               Document (save_costs_data sample_run))\<rparr>"
    by simp
  have "load_costs cpython_312 ''costs.json'' fs' = Inr sample_reloaded"
    using load_costs_document [OF _ enc, of fs' "''costs.json''"] fs'
    by (simp add: sample_rounded del: py_round.simps)
  with l have eq: "loaded = sample_reloaded" by simp
  from r [rule_format, OF sample_run_aggregate] eq sv l e sample_run_aggregate
    blank_disk_writable enc
  show ?thesis by (auto simp: sample_rounded simp del: py_round.simps)
qed

text \<open>
  C4 as stated fails for a \<^verbatim>\<open>RunCosts\<close> with an int of 4301 digits. The aggregate of one
  entry with \<open>10 ^ 4300\<close> input tokens is \<open>big_run\<close>; persisting it raises \<^verbatim>\<open>ValueError\<close> when
  \<^verbatim>\<open>json.dump\<close> converts that int, and the file left behind cannot be reloaded, so no entries
  list comes back.
\<close>

theorem save_load_roundtrip_counterexample:
  "aggregate_costs cpython_312 [big_entry] ''run-1'' = Inr big_run \<and>
   writable blank_disk ''costs.json'' \<and>
   save_costs cpython_312 big_run ''costs.json'' blank_disk =
     (Inl ValueError, blank_disk\<lparr>files := (files blank_disk)(''costs.json'' \<mapsto> Truncated)\<rparr>) \<and>
   load_costs cpython_312 ''costs.json''
     (blank_disk\<lparr>files := (files blank_disk)(''costs.json'' \<mapsto> Truncated)\<rparr>) = Inl ValueError"
  by (intro conjI big_run_aggregate blank_disk_writable big_run_refused truncated_unreadable)

end
